theory Spec2Isabelle
  imports Complex_Main
begin

section \<open>Sales management: the data model of models.py\<close>

text \<open>
  The tables of \<^verbatim>\<open>models.py\<close> are records, one per mapped class, and a table is the
  list of its rows. Primary keys and quantities are Python integers (\<open>int\<close>). Timestamps (\<^verbatim>\<open>Auditoria.fecha\<close>,
  \<^verbatim>\<open>Usuario.fecha_creacion\<close>) are left out; the date of a sale is a day number.

  Money is a \<^verbatim>\<open>Numeric(10, 2)\<close> column, read as a decimal and computed with as a \<^verbatim>\<open>float\<close>.
  An amount is given by its exact value, a rational: every decimal and every finite float
  has one. What the float operations return and what the column keeps of a value with
  more than two decimals is decided outside the repository (by binary floating point and
  by the database engine), so these operations are parameters of the model, the fields of
  \<open>aritmetica\<close>: \<^verbatim>\<open>float(n)\<close> of an integer, \<^verbatim>\<open>float(x)\<close> of a decimal or a float, the product
  and the sum of two floats, and the value a \<^verbatim>\<open>Numeric(10, 2)\<close> column holds after \<open>x\<close> was
  written to it. Nothing is assumed of them.
\<close>

type_synonym fecha = int

record aritmetica =
  float_de_int :: "int \<Rightarrow> rat"
  float_de :: "rat \<Rightarrow> rat"
  mult_float :: "rat \<Rightarrow> rat \<Rightarrow> rat"
  suma_float :: "rat \<Rightarrow> rat \<Rightarrow> rat"
  numeric_10_2 :: "rat \<Rightarrow> rat"

text \<open>
  Writing an amount to a \<^verbatim>\<open>Numeric(10, 2)\<close> column: a value with at most two decimals is
  kept as it is, any other value is rounded by the engine. (A value too large for the
  column makes the flush fail; faults of the database are decided by the environment,
  below.)
\<close>

definition columna :: "aritmetica \<Rightarrow> rat \<Rightarrow> rat" where
  "columna ar q = (if of_int \<lfloor>q * 100\<rfloor> = q * 100 then q else numeric_10_2 ar q)"

record producto =
  id_producto :: int
  nombre_producto :: string
  descripcion :: string
  precio :: rat
  stock :: int

record venta =
  id_venta :: int
  fecha_venta :: fecha
  id_cliente :: int
  id_usuario :: int
  total_v :: rat

record detalle_venta =
  id_detalle :: int
  dv_id_venta :: int
  dv_id_producto :: int
  cantidad :: int
  precio_unitario :: rat

text \<open>
  The key of an audit row is given by the engine when the row is inserted, and within
  one flush the unit of work decides the order of the inserts. The model leaves the key
  out and keeps the audit rows in the order in which they are added to the session.
\<close>

record auditoria =
  tabla :: string
  accion :: string
  id_registro :: int
  usuario_sql :: string
  datos :: string

record database =
  productos :: "producto list"
  ventas :: "venta list"
  detalles :: "detalle_venta list"
  auditorias :: "auditoria list"

text \<open>\<^verbatim>\<open>DetalleVenta.subtotal\<close>: \<^verbatim>\<open>float(self.cantidad) * float(self.precio_unitario)\<close>.\<close>

definition subtotal :: "aritmetica \<Rightarrow> detalle_venta \<Rightarrow> rat" where
  "subtotal ar dv =
     mult_float ar (float_de_int ar (cantidad dv)) (float_de ar (precio_unitario dv))"

text \<open>
  The relationship \<^verbatim>\<open>Venta.detalles\<close>, and the value of \<^verbatim>\<open>Venta.calcular_total\<close>: \<^verbatim>\<open>sum\<close>
  adds the subtotals from left to right, starting from 0.
\<close>

definition detalles_de :: "database \<Rightarrow> int \<Rightarrow> detalle_venta list" where
  "detalles_de db idv = filter (\<lambda>dv. dv_id_venta dv = idv) (detalles db)"

definition calcular_total :: "aritmetica \<Rightarrow> database \<Rightarrow> int \<Rightarrow> rat" where
  "calcular_total ar db idv = foldl (suma_float ar) 0 (map (subtotal ar) (detalles_de db idv))"

subsection \<open>Python values as text\<close>

text \<open>\<^verbatim>\<open>str(n)\<close> of an integer, as the f-strings of the source print it.\<close>

definition digito :: "nat \<Rightarrow> char" where
  "digito n = ''0123456789'' ! n"

fun str_nat :: "nat \<Rightarrow> string" where
  "str_nat n = (if n < 10 then [digito n] else str_nat (n div 10) @ [digito (n mod 10)])"

declare str_nat.simps [simp del]

definition str_int :: "int \<Rightarrow> string" where
  "str_int i = (if i < 0 then CHR ''-'' # str_nat (nat (- i)) else str_nat (nat i))"

text \<open>
  The format \<^verbatim>\<open>{total:.2f}\<close> of a float or an integer, which Python rounds correctly from
  the exact value: the sign, the integer part and two decimals of the value rounded to
  the nearest hundredth, a tie going to the even neighbour.
\<close>

definition redondear :: "rat \<Rightarrow> int" where
  "redondear q =
     (let f = \<lfloor>q\<rfloor>; r = q - of_int f
      in if r < 1 / 2 then f else if 1 / 2 < r then f + 1 else if even f then f else f + 1)"

definition fmt_2f :: "rat \<Rightarrow> string" where
  "fmt_2f q =
     (let n = nat (redondear (\<bar>q\<bar> * 100))
      in (if q < 0 then ''-'' else []) @ str_nat (n div 100) @ ''.''
         @ [digito ((n mod 100) div 10), digito (n mod 10)])"

definition comilla :: char where
  "comilla = CHR 0x27"

subsection \<open>Permissions by role\<close>

text \<open>
  \<^verbatim>\<open>Usuario.tiene_permiso\<close>: the dictionary \<^verbatim>\<open>permisos\<close> is an association list, and
  \<^verbatim>\<open>permisos.get(self.rol, [])\<close> is the lookup with the empty list as default.
\<close>

definition permisos :: "(string \<times> string list) list" where
  "permisos =
     [(''admin'', [''crear'', ''leer'', ''actualizar'', ''eliminar'', ''ventas'', ''reportes'']),
      (''vendedor'', [''leer'', ''ventas'', ''actualizar_cliente'']),
      (''consulta'', [''leer'', ''reportes''])]"

definition tiene_permiso :: "string \<Rightarrow> string \<Rightarrow> bool" where
  "tiene_permiso rol acc =
     (acc \<in> set (case map_of permisos rol of None \<Rightarrow> [] | Some l \<Rightarrow> l))"

subsection \<open>The database session\<close>

text \<open>
  \<^verbatim>\<open>db.session\<close> is a transaction over the database: \<open>committed\<close> is the durable state,
  \<open>working\<close> is what the open transaction sees (the committed rows with the changes of
  the session applied, each new sale and line item already carrying the key its insert
  assigns), and \<open>modificados\<close> lists the keys of the product objects assigned to since
  the last flush. \<^verbatim>\<open>rollback()\<close> drops the changes of the session; \<^verbatim>\<open>commit()\<close> makes them
  durable. A session with nothing pending is \<open>limpia\<close>.
\<close>

record session =
  committed :: database
  working :: database
  modificados :: "int list"

definition limpia :: "session \<Rightarrow> bool" where
  "limpia s = (working s = committed s \<and> modificados s = [])"

definition rollback :: "session \<Rightarrow> session" where
  "rollback s = s\<lparr>working := committed s, modificados := []\<rparr>"

text \<open>The row of the product table with a given primary key, if there is one.\<close>

definition query_get :: "producto list \<Rightarrow> int \<Rightarrow> producto option" where
  "query_get ps i = find (\<lambda>p. id_producto p = i) ps"

text \<open>
  An \<^verbatim>\<open>autoincrement\<close> primary key: one more than the largest key in use, 1 in an empty
  table.
\<close>

definition nuevo_id :: "int list \<Rightarrow> int" where
  "nuevo_id ks = fold max ks 0 + 1"

text \<open>\<^verbatim>\<open>db.session.add(Auditoria(...))\<close>.\<close>

definition add_auditoria ::
  "database \<Rightarrow> string \<Rightarrow> string \<Rightarrow> int \<Rightarrow> string \<Rightarrow> string \<Rightarrow> database" where
  "add_auditoria db t a r u d =
     db\<lparr>auditorias := auditorias db @
        [\<lparr>tabla = t, accion = a, id_registro = r, usuario_sql = u, datos = d\<rparr>]\<rparr>"

text \<open>
  The exceptions the code can raise, with \<^verbatim>\<open>str(e)\<close>. A request line is a dictionary that
  may lack a key (\<^verbatim>\<open>KeyError\<close>); \<^verbatim>\<open>flush()\<close> and \<^verbatim>\<open>commit()\<close> can fail in the database;
  \<^verbatim>\<open>NotFound\<close> is the abort of \<^verbatim>\<open>get_or_404\<close>.

  The environment of a call holds what the repository does not decide: today's date in
  Peru (\<^verbatim>\<open>hora_peru().date()\<close>) and on the server (\<^verbatim>\<open>datetime.now().date()\<close>), the message of
  the fault of \<^verbatim>\<open>flush()\<close> and of \<^verbatim>\<open>commit()\<close>, if any, the arithmetic of amounts, and, for
  the lookup of line \<open>k\<close> in step \<open>paso\<close> of \<^verbatim>\<open>registrar_venta\<close>, whether the product object
  is still in the identity map of the session (which depends on the references the
  Python run time holds at that moment).
\<close>

datatype excepcion =
  KeyError string | IndexError string | AttributeError string | OperationalError string
  | NotFound

fun str_exc :: "excepcion \<Rightarrow> string" where
  "str_exc (KeyError k) = [comilla] @ k @ [comilla]"
| "str_exc (IndexError m) = m"
| "str_exc (AttributeError m) = m"
| "str_exc (OperationalError m) = m"
| "str_exc NotFound = ''404 Not Found''"

record entorno =
  hoy :: fecha
  hoy_servidor :: fecha
  flush_falla :: "string option"
  commit_falla :: "string option"
  arit :: aritmetica
  en_identidad :: "nat \<Rightarrow> nat \<Rightarrow> bool"

definition getitem :: "string \<Rightarrow> 'a option \<Rightarrow> excepcion + 'a" where
  "getitem k v = (case v of None \<Rightarrow> Inl (KeyError k) | Some x \<Rightarrow> Inr x)"

text \<open>
  The listener \<^verbatim>\<open>auditoria_producto_update\<close> (\<^verbatim>\<open>after_update\<close> on \<^verbatim>\<open>Producto\<close>) adds one
  audit row for a product object that a flush finds modified. A flush, \<open>volcar\<close>, runs
  it for every modified product, in key order, and leaves no product modified. The
  session flushes on \<^verbatim>\<open>flush()\<close>, on \<^verbatim>\<open>commit()\<close> and before every query that goes to the
  database.
\<close>

definition auditoria_producto_update :: "database \<Rightarrow> int \<Rightarrow> database" where
  "auditoria_producto_update db k =
     (case query_get (productos db) k of
        None \<Rightarrow> db
      | Some target \<Rightarrow>
          add_auditoria db ''Producto'' ''UPDATE'' (id_producto target) ''system''
            (''Producto actualizado: '' @ nombre_producto target))"

definition volcar :: "session \<Rightarrow> session" where
  "volcar s =
     s\<lparr>working := fold (\<lambda>k d. auditoria_producto_update d k)
                     (sort (remdups (modificados s))) (working s),
       modificados := []\<rparr>"

definition flush :: "entorno \<Rightarrow> session \<Rightarrow> excepcion + session" where
  "flush env s =
     (case flush_falla env of Some m \<Rightarrow> Inl (OperationalError m) | None \<Rightarrow> Inr (volcar s))"

definition commit :: "entorno \<Rightarrow> session \<Rightarrow> excepcion + session" where
  "commit env s =
     (case commit_falla env of
        Some m \<Rightarrow> Inl (OperationalError m)
      | None \<Rightarrow>
          (let db = working (volcar s)
           in Inr \<lparr>committed = db, working = db, modificados = []\<rparr>))"

text \<open>
  \<^verbatim>\<open>Producto.query.get(id)\<close> for line \<open>k\<close> of step \<open>paso\<close>: the object is returned from the
  identity map when it is there, which a modified object always is; otherwise the
  session flushes and the row is read from the database. The result is the row with
  that key, or \<^verbatim>\<open>None\<close>.
\<close>

definition producto_query_get ::
  "entorno \<Rightarrow> nat \<Rightarrow> nat \<Rightarrow> session \<Rightarrow> int \<Rightarrow> session \<times> producto option" where
  "producto_query_get env paso k s i =
     (let s1 = (if i \<in> set (modificados s) \<or> en_identidad env paso k then s else volcar s)
      in (s1, query_get (productos (working s1)) i))"

section \<open>The sale registration: registrar\_venta\<close>

text \<open>
  One line of \<^verbatim>\<open>detalles_productos\<close>: a dictionary with the keys \<^verbatim>\<open>id_producto\<close>,
  \<^verbatim>\<open>cant\<close> and \<^verbatim>\<open>precio\<close>, any of which may be absent. The result is the dictionary the
  function returns.
\<close>

record detalle =
  dp_id_producto :: "int option"
  dp_cant :: "int option"
  dp_precio :: "rat option"

record resultado =
  status :: string
  mensaje :: string
  venta_id :: int
  total_venta :: rat

definition resultado_error :: "string \<Rightarrow> resultado" where
  "resultado_error m = \<lparr>status = ''error'', mensaje = m, venta_id = 0, total_venta = 0\<rparr>"

definition msg_no_encontrado :: "int \<Rightarrow> string" where
  "msg_no_encontrado i = ''Producto ID '' @ str_int i @ '' no encontrado''"

definition msg_stock_insuficiente :: "producto \<Rightarrow> int \<Rightarrow> string" where
  "msg_stock_insuficiente p c =
     ''Stock insuficiente para '' @ [comilla] @ nombre_producto p @ [comilla]
     @ '' (ID: '' @ str_int (id_producto p) @ ''). ''
     @ ''Solicitado: '' @ str_int c @ '', Disponible: '' @ str_int (stock p)"

text \<open>
  Step 1, the loop that checks the stock, from line \<open>k\<close> on: \<open>Inr (None, s')\<close> when every
  line passes, \<open>Inr (Some r, s')\<close> when the loop returns the error result \<open>r\<close>, \<open>Inl e\<close>
  when it raises.
\<close>

fun verificar_stock ::
  "entorno \<Rightarrow> nat \<Rightarrow> session \<Rightarrow> detalle list \<Rightarrow> excepcion + resultado option \<times> session" where
  "verificar_stock env k s [] = Inr (None, s)"
| "verificar_stock env k s (d # ds) =
     (case getitem ''id_producto'' (dp_id_producto d) of
        Inl e \<Rightarrow> Inl e
      | Inr i \<Rightarrow>
          (case producto_query_get env 1 k s i of
             (s1, None) \<Rightarrow> Inr (Some (resultado_error (msg_no_encontrado i)), s1)
           | (s1, Some p) \<Rightarrow>
               (case getitem ''cant'' (dp_cant d) of
                  Inl e \<Rightarrow> Inl e
                | Inr c \<Rightarrow>
                    if stock p < c
                    then Inr (Some (resultado_error (msg_stock_insuficiente p c)), s1)
                    else verificar_stock env (Suc k) s1 ds)))"

text \<open>
  Step 3, the loop that adds the line items and accumulates the total. The subtotal is
  computed on the new object, which holds the price as it was given; the row of the table
  holds what the column keeps of it.
\<close>

fun insertar_detalles ::
  "aritmetica \<Rightarrow> int \<Rightarrow> detalle list \<Rightarrow> database \<Rightarrow> rat \<Rightarrow> excepcion + database \<times> rat" where
  "insertar_detalles ar idv [] db tot = Inr (db, tot)"
| "insertar_detalles ar idv (d # ds) db tot =
     (case getitem ''id_producto'' (dp_id_producto d) of
        Inl e \<Rightarrow> Inl e
      | Inr i \<Rightarrow>
          (case getitem ''cant'' (dp_cant d) of
             Inl e \<Rightarrow> Inl e
           | Inr c \<Rightarrow>
               (case getitem ''precio'' (dp_precio d) of
                  Inl e \<Rightarrow> Inl e
                | Inr pr \<Rightarrow>
                    (let detalle_venta =
                           \<lparr>id_detalle = nuevo_id (map id_detalle (detalles db)),
                            dv_id_venta = idv, dv_id_producto = i, cantidad = c,
                            precio_unitario = pr\<rparr>
                     in insertar_detalles ar idv ds
                          (db\<lparr>detalles := detalles db @
                                [detalle_venta\<lparr>precio_unitario := columna ar pr\<rparr>]\<rparr>)
                          (suma_float ar tot (subtotal ar detalle_venta))))))"

text \<open>
  Step 5, the loop that takes the quantities off the stock, from line \<open>k\<close> on.
  \<^verbatim>\<open>producto.stock -= c\<close> on \<^verbatim>\<open>None\<close> raises \<^verbatim>\<open>AttributeError\<close> before the quantity is read.
\<close>

definition descontar :: "int \<Rightarrow> int \<Rightarrow> producto list \<Rightarrow> producto list" where
  "descontar i c ps = map (\<lambda>p. if id_producto p = i then p\<lparr>stock := stock p - c\<rparr> else p) ps"

definition msg_none_stock :: string where
  "msg_none_stock =
     [comilla] @ ''NoneType'' @ [comilla] @ '' object has no attribute '' @ [comilla] @ ''stock''
     @ [comilla]"

fun actualizar_stock ::
  "entorno \<Rightarrow> nat \<Rightarrow> detalle list \<Rightarrow> session \<Rightarrow> excepcion + session" where
  "actualizar_stock env k [] s = Inr s"
| "actualizar_stock env k (d # ds) s =
     (case getitem ''id_producto'' (dp_id_producto d) of
        Inl e \<Rightarrow> Inl e
      | Inr i \<Rightarrow>
          (case producto_query_get env 5 k s i of
             (s1, None) \<Rightarrow> Inl (AttributeError msg_none_stock)
           | (s1, Some p) \<Rightarrow>
               (case getitem ''cant'' (dp_cant d) of
                  Inl e \<Rightarrow> Inl e
                | Inr c \<Rightarrow>
                    actualizar_stock env (Suc k) ds
                      (s1\<lparr>working := (working s1)
                            \<lparr>productos := descontar i c (productos (working s1))\<rparr>,
                          modificados := modificados s1 @ [i]\<rparr>))))"

definition msg_venta_registrada :: "int \<Rightarrow> rat \<Rightarrow> string" where
  "msg_venta_registrada idc tot =
     ''Venta registrada: Cliente ID '' @ str_int idc @ '', Total S/. '' @ fmt_2f tot"

text \<open>
  The body of the \<^verbatim>\<open>try\<close> block, steps 1 to 7: \<open>Inl e\<close> when it raises \<open>e\<close>, otherwise
  the returned dictionary and the session as the block leaves it. The returned
  \<^verbatim>\<open>float(total)\<close> has the value of \<^verbatim>\<open>total\<close>, which is the integer 0 or a float.
\<close>

definition intentar_venta ::
  "entorno \<Rightarrow> session \<Rightarrow> int \<Rightarrow> int \<Rightarrow> fecha option \<Rightarrow> detalle list
     \<Rightarrow> excepcion + resultado \<times> session" where
  "intentar_venta env s idc idu fecha_opt ds =
     (let fecha = (case fecha_opt of None \<Rightarrow> hoy env | Some f \<Rightarrow> f)
      in case verificar_stock env 0 s ds of
           Inl e \<Rightarrow> Inl e
         | Inr (Some r, s1) \<Rightarrow> Inr (r, s1)
         | Inr (None, s1) \<Rightarrow>
             (let idv = nuevo_id (map id_venta (ventas (working s1)));
                  s2 = s1\<lparr>working := (working s1)\<lparr>ventas := ventas (working s1) @
                         [\<lparr>id_venta = idv, fecha_venta = fecha, id_cliente = idc,
                           id_usuario = idu, total_v = 0\<rparr>]\<rparr>\<rparr>
              in case flush env s2 of
                   Inl e \<Rightarrow> Inl e
                 | Inr s3 \<Rightarrow>
                     (case insertar_detalles (arit env) idv ds (working s3) 0 of
                        Inl e \<Rightarrow> Inl e
                      | Inr (w, tot) \<Rightarrow>
                          (let s4 = s3\<lparr>working := w\<lparr>ventas :=
                                 map (\<lambda>v. if id_venta v = idv
                                            then v\<lparr>total_v := columna (arit env) tot\<rparr> else v)
                                   (ventas w)\<rparr>\<rparr>
                           in case actualizar_stock env 0 ds s4 of
                                Inl e \<Rightarrow> Inl e
                              | Inr s5 \<Rightarrow>
                                  (let s6 = s5\<lparr>working := add_auditoria (working s5) ''Venta''
                                              ''INSERT'' idv ''system''
                                              (msg_venta_registrada idc tot)\<rparr>
                                   in case commit env s6 of
                                        Inl e \<Rightarrow> Inl e
                                      | Inr s' \<Rightarrow>
                                          Inr (\<lparr>status = ''success'',
                                                mensaje = ''Venta registrada exitosamente'',
                                                venta_id = idv, total_venta = tot\<rparr>, s'))))))"

definition lineas :: "detalle list option \<Rightarrow> detalle list" where
  "lineas detalles_productos = (case detalles_productos of None \<Rightarrow> [] | Some l \<Rightarrow> l)"

text \<open>
  \<^verbatim>\<open>registrar_venta\<close>: a missing list is the empty list, and the \<^verbatim>\<open>except\<close> clause rolls the
  session back and turns the exception into an error result. Nothing is committed before
  the last step of the block, so the rollback starts from the durable state of the call.
\<close>

definition registrar_venta ::
  "entorno \<Rightarrow> session \<Rightarrow> int \<Rightarrow> int \<Rightarrow> fecha option \<Rightarrow> detalle list option
     \<Rightarrow> resultado \<times> session" where
  "registrar_venta env s idc idu fecha_opt detalles_productos =
     (let ds = lineas detalles_productos
      in case intentar_venta env s idc idu fecha_opt ds of
           Inl e \<Rightarrow> (resultado_error (''Error al registrar venta: '' @ str_exc e), rollback s)
         | Inr rs \<Rightarrow> rs)"

section \<open>The request layer: app.py\<close>

text \<open>
  A route answers with a flashed message and a redirect. The functions below are the
  \<^verbatim>\<open>POST\<close> branches of the routes, after the form fields have been parsed by \<^verbatim>\<open>int\<close> and
  \<^verbatim>\<open>float\<close>; an exception that leaves the route is the left summand, and the session is
  returned in every case. A route reads the product table as the session sees it.
\<close>

record respuesta =
  flash :: string
  categoria :: string
  destino :: string
  destino_id :: "int option"

text \<open>
  The loop of \<^verbatim>\<open>nueva_venta\<close> over \<^verbatim>\<open>range(len(productos_ids))\<close>: \<^verbatim>\<open>cantidades[i]\<close> raises
  when the list of quantities is the shorter one; a quantity that is not positive and an
  unknown product are skipped; the price of a line is \<^verbatim>\<open>float(producto.precio)\<close>.
\<close>

fun armar_detalles ::
  "aritmetica \<Rightarrow> producto list \<Rightarrow> int list \<Rightarrow> int list \<Rightarrow> detalle list
     \<Rightarrow> excepcion + detalle list" where
  "armar_detalles ar ps [] cs acc = Inr acc"
| "armar_detalles ar ps (i # is) [] acc = Inl (IndexError ''list index out of range'')"
| "armar_detalles ar ps (i # is) (c # cs) acc =
     (if c \<le> 0 then armar_detalles ar ps is cs acc
      else case query_get ps i of
             None \<Rightarrow> armar_detalles ar ps is cs acc
           | Some p \<Rightarrow>
               armar_detalles ar ps is cs
                 (acc @ [\<lparr>dp_id_producto = Some i, dp_cant = Some c,
                          dp_precio = Some (float_de ar (precio p))\<rparr>]))"

definition nueva_venta ::
  "entorno \<Rightarrow> session \<Rightarrow> int \<Rightarrow> int \<Rightarrow> int list \<Rightarrow> int list
     \<Rightarrow> (excepcion + respuesta) \<times> session" where
  "nueva_venta env s current_user_id idc productos_ids cantidades =
     (case armar_detalles (arit env) (productos (working s)) productos_ids cantidades [] of
        Inl e \<Rightarrow> (Inl e, s)
      | Inr dets \<Rightarrow>
          if dets = []
          then (Inr \<lparr>flash = ''Debe agregar al menos un producto'', categoria = ''warning'',
                      destino = ''nueva_venta'', destino_id = None\<rparr>, s)
          else
            (let rs = registrar_venta env s idc current_user_id (Some (hoy_servidor env))
                        (Some dets);
                 r = fst rs
             in if status r = ''success''
                then (Inr \<lparr>flash = mensaje r, categoria = ''success'',
                            destino = ''detalle_venta'', destino_id = Some (venta_id r)\<rparr>,
                      snd rs)
                else (Inr \<lparr>flash = mensaje r, categoria = ''danger'',
                            destino = ''nueva_venta'', destino_id = None\<rparr>, snd rs)))"

text \<open>
  \<^verbatim>\<open>editar_producto\<close>: the four columns of the product are assigned from the form and the
  session is committed.
\<close>

record formulario_producto =
  f_nombre_producto :: string
  f_descripcion :: string
  f_precio :: rat
  f_stock :: int

definition editar_producto ::
  "entorno \<Rightarrow> session \<Rightarrow> int \<Rightarrow> formulario_producto \<Rightarrow> (excepcion + respuesta) \<times> session" where
  "editar_producto env s i form =
     (case query_get (productos (working s)) i of
        None \<Rightarrow> (Inl NotFound, s)
      | Some producto \<Rightarrow>
          (let ps = map (\<lambda>p. if id_producto p = i
                              then p\<lparr>nombre_producto := f_nombre_producto form,
                                     descripcion := f_descripcion form,
                                     precio := columna (arit env) (f_precio form),
                                     stock := f_stock form\<rparr>
                              else p) (productos (working s));
               s1 = s\<lparr>working := (working s)\<lparr>productos := ps\<rparr>,
                       modificados := modificados s @ [i]\<rparr>
           in case commit env s1 of
                Inl e \<Rightarrow> (Inl e, s1)
              | Inr s' \<Rightarrow>
                  (Inr \<lparr>flash = ''Producto actualizado correctamente'', categoria = ''success'',
                         destino = ''ver_productos'', destino_id = None\<rparr>, s')))"

section \<open>Quantities the properties speak of\<close>

text \<open>
  The total quantity a request asks of product \<open>j\<close>, over all its lines, and the number
  of distinct products a request names with a positive quantity.
\<close>

definition cantidad_pedida :: "detalle list \<Rightarrow> int \<Rightarrow> int" where
  "cantidad_pedida ds j =
     sum_list (map (\<lambda>d. if dp_id_producto d = Some j
                          then (case dp_cant d of None \<Rightarrow> 0 | Some c \<Rightarrow> c) else 0) ds)"

definition cantidad_positiva :: "detalle \<Rightarrow> bool" where
  "cantidad_positiva d = (case dp_cant d of None \<Rightarrow> False | Some c \<Rightarrow> 0 < c)"

definition productos_distintos :: "detalle list \<Rightarrow> nat" where
  "productos_distintos ds = length (remdups (map dp_id_producto (filter cantidad_positiva ds)))"

text \<open>
  The floating point total of a request: \<^verbatim>\<open>float(cant) * float(precio)\<close> of each line,
  added from left to right to the integer 0.
\<close>

definition subtotal_pedido :: "aritmetica \<Rightarrow> detalle \<Rightarrow> rat" where
  "subtotal_pedido ar d =
     (case dp_cant d of
        None \<Rightarrow> 0
      | Some c \<Rightarrow>
          (case dp_precio d of
             None \<Rightarrow> 0
           | Some pr \<Rightarrow> mult_float ar (float_de_int ar c) (float_de ar pr)))"

definition total_pedido :: "aritmetica \<Rightarrow> detalle list \<Rightarrow> rat" where
  "total_pedido ar ds = foldl (suma_float ar) 0 (map (subtotal_pedido ar) ds)"

text \<open>A request line carries \<^verbatim>\<open>float(precio)\<close> of its product in the table \<open>ps\<close>.\<close>

definition precio_vigente :: "aritmetica \<Rightarrow> producto list \<Rightarrow> detalle \<Rightarrow> bool" where
  "precio_vigente ar ps d =
     (case dp_id_producto d of
        None \<Rightarrow> False
      | Some i \<Rightarrow>
          (case query_get ps i of
             None \<Rightarrow> False
           | Some p \<Rightarrow> dp_precio d = Some (float_de ar (precio p))))"

text \<open>
  A request line names a product of the table \<open>ps\<close> and a quantity; and such a line asks
  more than the product has in stock.
\<close>

definition linea_existente :: "producto list \<Rightarrow> detalle \<Rightarrow> bool" where
  "linea_existente ps d =
     (case dp_id_producto d of
        None \<Rightarrow> False
      | Some i \<Rightarrow> (case dp_cant d of None \<Rightarrow> False | Some c \<Rightarrow> query_get ps i \<noteq> None))"

definition falta_stock :: "producto list \<Rightarrow> detalle \<Rightarrow> bool" where
  "falta_stock ps d =
     (case dp_id_producto d of
        None \<Rightarrow> False
      | Some i \<Rightarrow>
          (case dp_cant d of
             None \<Rightarrow> False
           | Some c \<Rightarrow> (case query_get ps i of None \<Rightarrow> False | Some p \<Rightarrow> stock p < c)))"

text \<open>
  An audit row written by the product listener; and a session that differs from another
  only by such rows, added at the end of the audit table it sees.
\<close>

definition fila_listener :: "auditoria \<Rightarrow> bool" where
  "fila_listener a = (tabla a = ''Producto'' \<and> accion a = ''UPDATE'')"

definition mas_listener :: "database \<Rightarrow> database \<Rightarrow> bool" where
  "mas_listener db db' =
     (productos db' = productos db \<and> ventas db' = ventas db \<and> detalles db' = detalles db
      \<and> (\<exists>extra. auditorias db' = auditorias db @ extra \<and> list_all fila_listener extra))"

section \<open>A small shop, for concrete runs\<close>

text \<open>
  In the runs below the caller holds no product object, so that a lookup finds in the
  identity map the modified products only. All amounts are whole numbers or halves, which
  a float holds exactly and which the column keeps as they are; the float operations on
  them are exact, and so is the arithmetic of these runs (its rounding to two decimals,
  half away from zero, never has anything to round there).
\<close>

definition laptop :: producto where
  "laptop = \<lparr>id_producto = 1, nombre_producto = ''Laptop'', descripcion = ''Laptop 15'',
             precio = 850, stock = 25\<rparr>"

definition mouse :: producto where
  "mouse = \<lparr>id_producto = 2, nombre_producto = ''Mouse'', descripcion = ''Mouse USB'',
            precio = 25 / 2, stock = 1\<rparr>"

definition tienda :: database where
  "tienda = \<lparr>productos = [laptop, mouse], ventas = [], detalles = [], auditorias = []\<rparr>"

definition sesion0 :: session where
  "sesion0 = \<lparr>committed = tienda, working = tienda, modificados = []\<rparr>"

definition aritmetica_exacta :: aritmetica where
  "aritmetica_exacta =
     \<lparr>float_de_int = of_int, float_de = (\<lambda>q. q), mult_float = (\<lambda>a b. a * b),
      suma_float = (\<lambda>a b. a + b),
      numeric_10_2 = (\<lambda>q. sgn q * of_int \<lfloor>\<bar>q\<bar> * 100 + 1 / 2\<rfloor> / 100)\<rparr>"

definition sin_fallas :: entorno where
  "sin_fallas = \<lparr>hoy = 20000, hoy_servidor = 20000, flush_falla = None, commit_falla = None,
                 arit = aritmetica_exacta, en_identidad = (\<lambda>paso k. False)\<rparr>"

definition linea :: "int \<Rightarrow> int \<Rightarrow> rat \<Rightarrow> detalle" where
  "linea i c pr = \<lparr>dp_id_producto = Some i, dp_cant = Some c, dp_precio = Some pr\<rparr>"

section \<open>Properties\<close>

subsection \<open>Keys and lookups\<close>

text \<open>A fresh key is positive and larger than every key in use.\<close>

lemma fold_max_ge: "(a::int) \<le> fold max ks a"
proof (induction ks arbitrary: a)
  case Nil
  show ?case by simp
next
  case (Cons k ks)
  have "a \<le> max k a" by simp
  also have "max k a \<le> fold max ks (max k a)" by (rule Cons.IH)
  finally show ?case by simp
qed

lemma fold_max_mem: "k \<in> set ks \<Longrightarrow> k \<le> fold max ks (a::int)"
proof (induction ks arbitrary: a)
  case Nil
  then show ?case by simp
next
  case (Cons x xs)
  show ?case
  proof (cases "k = x")
    case True
    have "k \<le> max x a" using True by simp
    also have "max x a \<le> fold max xs (max x a)" by (rule fold_max_ge)
    finally show ?thesis by simp
  next
    case False
    with Cons.prems have "k \<in> set xs" by simp
    then show ?thesis using Cons.IH by simp
  qed
qed

lemma nuevo_id_pos: "0 < nuevo_id ks"
  using fold_max_ge [of 0 ks] by (simp add: nuevo_id_def)

lemma nuevo_id_gt: "k \<in> set ks \<Longrightarrow> k < nuevo_id ks"
  using fold_max_mem [of k ks 0] by (simp add: nuevo_id_def)

lemma query_get_id: "query_get ps i = Some p \<Longrightarrow> id_producto p = i"
  by (auto simp: query_get_def find_Some_iff)

lemma query_get_descontar:
  "query_get (descontar i c ps) j =
     map_option (\<lambda>p. if j = i then p\<lparr>stock := stock p - c\<rparr> else p) (query_get ps j)"
  by (induction ps) (auto simp: query_get_def descontar_def)

lemma columna_dos_decimales: "of_int \<lfloor>q * 100\<rfloor> = q * 100 \<Longrightarrow> columna ar q = q"
  by (simp add: columna_def)

lemma columna_cero: "columna ar 0 = 0"
  by (simp add: columna_def)

subsection \<open>Rows of the listener\<close>

lemma mas_listener_refl: "mas_listener db db"
  by (simp add: mas_listener_def)

lemma mas_listener_trans:
  assumes "mas_listener a b" and "mas_listener b c"
  shows "mas_listener a c"
proof -
  from assms(1) obtain e1 where e1: "auditorias b = auditorias a @ e1" "list_all fila_listener e1"
    by (auto simp: mas_listener_def)
  from assms(2) obtain e2 where e2: "auditorias c = auditorias b @ e2" "list_all fila_listener e2"
    by (auto simp: mas_listener_def)
  have "auditorias c = auditorias a @ (e1 @ e2)" using e1(1) e2(1) by simp
  moreover have "list_all fila_listener (e1 @ e2)" using e1(2) e2(2) by simp
  ultimately have "\<exists>extra. auditorias c = auditorias a @ extra \<and> list_all fila_listener extra"
    by blast
  then show ?thesis using assms by (simp add: mas_listener_def)
qed

lemma mas_listener_update: "mas_listener db (auditoria_producto_update db k)"
proof (cases "query_get (productos db) k")
  case None
  then show ?thesis by (simp add: auditoria_producto_update_def mas_listener_refl)
next
  case (Some p)
  have "list_all fila_listener [\<lparr>tabla = ''Producto'', accion = ''UPDATE'',
      id_registro = id_producto p, usuario_sql = ''system'',
      datos = ''Producto actualizado: '' @ nombre_producto p\<rparr>]"
    by (simp add: fila_listener_def)
  then show ?thesis using Some
    by (auto simp: auditoria_producto_update_def add_auditoria_def mas_listener_def)
qed

lemma mas_listener_fold:
  "mas_listener db (fold (\<lambda>k d. auditoria_producto_update d k) ks db)"
proof (induction ks arbitrary: db)
  case Nil
  show ?case by (simp add: mas_listener_refl)
next
  case (Cons k ks)
  have "mas_listener (auditoria_producto_update db k)
          (fold (\<lambda>k d. auditoria_producto_update d k) ks (auditoria_producto_update db k))"
    by (rule Cons.IH)
  with mas_listener_update [of db k] show ?case
    by (simp add: mas_listener_trans)
qed

lemma volcar_frame:
  "committed (volcar s) = committed s" "modificados (volcar s) = []"
  "mas_listener (working s) (working (volcar s))"
  by (simp_all add: volcar_def mas_listener_fold)

lemma volcar_nada: "modificados s = [] \<Longrightarrow> volcar s = s"
  by (simp add: volcar_def)

lemma producto_query_get_frame:
  assumes "producto_query_get env paso k s i = (s1, po)"
  shows "committed s1 = committed s" "mas_listener (working s) (working s1)"
    "po = query_get (productos (working s)) i" "modificados s = [] \<longrightarrow> s1 = s"
    "s1 = s \<or> modificados s1 = []"
proof -
  have c: "s1 = s \<or> s1 = volcar s" and p: "po = query_get (productos (working s1)) i"
    using assms by (auto simp: producto_query_get_def Let_def split: if_splits)
  from c show "committed s1 = committed s" by (auto simp: volcar_frame)
  from c show m: "mas_listener (working s) (working s1)"
    by (auto simp: volcar_frame mas_listener_refl)
  from m p show "po = query_get (productos (working s)) i" by (simp add: mas_listener_def)
  from c show "modificados s = [] \<longrightarrow> s1 = s" by (auto simp: volcar_nada)
  from c show "s1 = s \<or> modificados s1 = []" by (auto simp: volcar_frame)
qed

lemma commit_Inr:
  assumes "commit env s = Inr s'"
  shows "working s' = committed s'" "modificados s' = []"
    "mas_listener (working s) (committed s')"
  using assms volcar_frame(3) [of s]
  by (auto simp: commit_def Let_def split: option.splits)

lemma flush_Inr:
  assumes "flush env s = Inr s'"
  shows "committed s' = committed s" "modificados s' = []"
    "mas_listener (working s) (working s')"
  using assms by (auto simp: flush_def volcar_frame split: option.splits)

subsection \<open>The three loops\<close>

lemma verificar_stock_frame:
  "verificar_stock env k s ds = Inr (ro, s1) \<Longrightarrow>
     committed s1 = committed s \<and> mas_listener (working s) (working s1)
     \<and> (modificados s = [] \<longrightarrow> s1 = s)"
proof (induction ds arbitrary: k s)
  case Nil
  then show ?case by (simp add: mas_listener_refl)
next
  case (Cons d ds)
  from Cons.prems obtain i where i: "dp_id_producto d = Some i"
    by (auto simp: getitem_def split: option.splits)
  obtain s2 po where q: "producto_query_get env 1 k s i = (s2, po)"
    by (cases "producto_query_get env 1 k s i")
  note f = producto_query_get_frame [OF q]
  have base: "committed s2 = committed s \<and> mas_listener (working s) (working s2)
     \<and> (modificados s = [] \<longrightarrow> s2 = s)"
    using f by simp
  show ?case
  proof (cases po)
    case None
    with Cons.prems i q have "s1 = s2" by (simp add: getitem_def)
    with base show ?thesis by simp
  next
    case (Some p)
    from Cons.prems i q Some obtain c where c: "dp_cant d = Some c"
      by (auto simp: getitem_def split: option.splits)
    show ?thesis
    proof (cases "stock p < c")
      case True
      with Cons.prems i q Some c have "s1 = s2" by (simp add: getitem_def)
      with base show ?thesis by simp
    next
      case False
      with Cons.prems i q Some c have "verificar_stock env (Suc k) s2 ds = Inr (ro, s1)"
        by (simp add: getitem_def)
      from Cons.IH [OF this] have ih: "committed s1 = committed s2"
        "mas_listener (working s2) (working s1)" "modificados s2 = [] \<longrightarrow> s1 = s2"
        by simp_all
      have "mas_listener (working s) (working s1)"
        using f(2) ih(2) by (rule mas_listener_trans)
      moreover have "modificados s = [] \<longrightarrow> s1 = s" using f(4) ih(3) by auto
      ultimately show ?thesis using ih(1) f(1) by simp
    qed
  qed
qed

lemma verificar_stock_error:
  "verificar_stock env k s ds = Inr (Some r, s1) \<Longrightarrow>
     status r = ''error'' \<and> venta_id r = 0 \<and> total_venta r = 0"
proof (induction ds arbitrary: k s)
  case Nil
  then show ?case by simp
next
  case (Cons d ds)
  from Cons.prems obtain i where i: "dp_id_producto d = Some i"
    by (auto simp: getitem_def split: option.splits)
  obtain s2 po where q: "producto_query_get env 1 k s i = (s2, po)"
    by (cases "producto_query_get env 1 k s i")
  show ?case
  proof (cases po)
    case None
    with Cons.prems i q show ?thesis by (auto simp: getitem_def resultado_error_def)
  next
    case (Some p)
    from Cons.prems i q Some obtain c where c: "dp_cant d = Some c"
      by (auto simp: getitem_def split: option.splits)
    show ?thesis
    proof (cases "stock p < c")
      case True
      with Cons.prems i q Some c show ?thesis by (auto simp: getitem_def resultado_error_def)
    next
      case False
      with Cons.prems i q Some c have "verificar_stock env (Suc k) s2 ds = Inr (Some r, s1)"
        by (simp add: getitem_def)
      from Cons.IH [OF this] show ?thesis .
    qed
  qed
qed

lemma verificar_stock_ok:
  "verificar_stock env k s ds = Inr (None, s1) \<Longrightarrow> d \<in> set ds \<Longrightarrow>
     \<exists>i c p. dp_id_producto d = Some i \<and> dp_cant d = Some c
       \<and> query_get (productos (working s)) i = Some p \<and> c \<le> stock p"
proof (induction ds arbitrary: k s)
  case Nil
  then show ?case by simp
next
  case (Cons x xs)
  from Cons.prems(1) obtain i where i: "dp_id_producto x = Some i"
    by (auto simp: getitem_def split: option.splits)
  obtain s2 po where q: "producto_query_get env 1 k s i = (s2, po)"
    by (cases "producto_query_get env 1 k s i")
  note f = producto_query_get_frame [OF q]
  from Cons.prems(1) i q obtain p where p: "po = Some p"
    by (cases po) (auto simp: getitem_def)
  from Cons.prems(1) i q p obtain c where c: "dp_cant x = Some c"
    by (auto simp: getitem_def split: option.splits)
  from Cons.prems(1) i q p c have ns: "\<not> stock p < c"
    by (auto simp: getitem_def split: if_splits)
  with Cons.prems(1) i q p c have rest: "verificar_stock env (Suc k) s2 xs = Inr (None, s1)"
    by (simp add: getitem_def)
  have ps: "productos (working s2) = productos (working s)"
    using f(2) by (simp add: mas_listener_def)
  show ?case
  proof (cases "d = x")
    case True
    with i c p f(3) ns show ?thesis by auto
  next
    case False
    with Cons.prems(2) have "d \<in> set xs" by simp
    from Cons.IH [OF rest this] ps show ?thesis by simp
  qed
qed

lemma insertar_detalles_Inr:
  "insertar_detalles ar idv ds db tot = Inr (db', tot') \<Longrightarrow>
     \<exists>nuevos. db' = db\<lparr>detalles := detalles db @ nuevos\<rparr>
       \<and> map (\<lambda>dv. Some (dv_id_producto dv)) nuevos = map dp_id_producto ds
       \<and> map (\<lambda>dv. Some (cantidad dv)) nuevos = map dp_cant ds
       \<and> map (\<lambda>dv. Some (precio_unitario dv)) nuevos
            = map (\<lambda>d. map_option (columna ar) (dp_precio d)) ds
       \<and> (\<forall>dv\<in>set nuevos. dv_id_venta dv = idv)
       \<and> tot' = foldl (suma_float ar) tot (map (subtotal_pedido ar) ds)"
proof (induction ds arbitrary: db tot)
  case Nil
  then show ?case by simp
next
  case (Cons d ds)
  from Cons.prems obtain i c pr where
    k: "dp_id_producto d = Some i" "dp_cant d = Some c" "dp_precio d = Some pr"
    by (auto simp: getitem_def split: option.splits)
  define dv where "dv = \<lparr>id_detalle = nuevo_id (map id_detalle (detalles db)),
     dv_id_venta = idv, dv_id_producto = i, cantidad = c, precio_unitario = columna ar pr\<rparr>"
  have st: "subtotal ar \<lparr>id_detalle = nuevo_id (map id_detalle (detalles db)),
     dv_id_venta = idv, dv_id_producto = i, cantidad = c, precio_unitario = pr\<rparr>
       = subtotal_pedido ar d"
    using k by (simp add: subtotal_def subtotal_pedido_def)
  from Cons.prems k have
    "insertar_detalles ar idv ds (db\<lparr>detalles := detalles db @ [dv]\<rparr>)
        (suma_float ar tot (subtotal_pedido ar d)) = Inr (db', tot')"
    unfolding st [symmetric] by (simp add: getitem_def dv_def Let_def)
  from Cons.IH [OF this] obtain nuevos where n:
    "db' = db\<lparr>detalles := detalles db @ [dv]\<rparr>\<lparr>detalles := detalles (db\<lparr>detalles := detalles db @ [dv]\<rparr>) @ nuevos\<rparr>"
    "map (\<lambda>dv. Some (dv_id_producto dv)) nuevos = map dp_id_producto ds"
    "map (\<lambda>dv. Some (cantidad dv)) nuevos = map dp_cant ds"
    "map (\<lambda>dv. Some (precio_unitario dv)) nuevos
            = map (\<lambda>d. map_option (columna ar) (dp_precio d)) ds"
    "\<forall>dv\<in>set nuevos. dv_id_venta dv = idv"
    "tot' = foldl (suma_float ar) (suma_float ar tot (subtotal_pedido ar d))
              (map (subtotal_pedido ar) ds)"
    by blast
  show ?case
    apply (rule exI [of _ "dv # nuevos"])
    using n k by (simp add: dv_def)
qed

lemma actualizar_stock_Inr:
  "actualizar_stock env k ds s = Inr s' \<Longrightarrow>
     committed s' = committed s
     \<and> ventas (working s') = ventas (working s)
     \<and> detalles (working s') = detalles (working s)
     \<and> (\<exists>extra. auditorias (working s') = auditorias (working s) @ extra
           \<and> list_all fila_listener extra)
     \<and> query_get (productos (working s')) j
         = map_option (\<lambda>p. p\<lparr>stock := stock p - cantidad_pedida ds j\<rparr>)
             (query_get (productos (working s)) j)"
proof (induction ds arbitrary: k s)
  case Nil
  then show ?case by (simp add: cantidad_pedida_def option.map_ident)
next
  case (Cons d ds)
  from Cons.prems obtain i where i: "dp_id_producto d = Some i"
    by (auto simp: getitem_def split: option.splits)
  obtain s1 po where q: "producto_query_get env 5 k s i = (s1, po)"
    by (cases "producto_query_get env 5 k s i")
  note f = producto_query_get_frame [OF q]
  from Cons.prems i q obtain p where p: "po = Some p"
    by (cases po) (auto simp: getitem_def)
  from Cons.prems i q p obtain c where c: "dp_cant d = Some c"
    by (auto simp: getitem_def split: option.splits)
  define s2 where "s2 = s1\<lparr>working := (working s1)
      \<lparr>productos := descontar i c (productos (working s1))\<rparr>,
      modificados := modificados s1 @ [i]\<rparr>"
  from Cons.prems i q p c have "actualizar_stock env (Suc k) ds s2 = Inr s'"
    by (simp add: getitem_def s2_def)
  from Cons.IH [OF this] obtain e2 where ih:
    "committed s' = committed s2" "ventas (working s') = ventas (working s2)"
    "detalles (working s') = detalles (working s2)"
    "auditorias (working s') = auditorias (working s2) @ e2" "list_all fila_listener e2"
    "query_get (productos (working s')) j
         = map_option (\<lambda>p. p\<lparr>stock := stock p - cantidad_pedida ds j\<rparr>)
             (query_get (productos (working s2)) j)"
    by blast
  from f(2) obtain e1 where e1: "productos (working s1) = productos (working s)"
    "ventas (working s1) = ventas (working s)" "detalles (working s1) = detalles (working s)"
    "auditorias (working s1) = auditorias (working s) @ e1" "list_all fila_listener e1"
    by (auto simp: mas_listener_def)
  have cp: "cantidad_pedida (d # ds) j = (if i = j then c else 0) + cantidad_pedida ds j"
    using i c by (simp add: cantidad_pedida_def)
  have a: "auditorias (working s') = auditorias (working s) @ (e1 @ e2)"
    using ih(4) e1(4) by (simp add: s2_def)
  have l: "list_all fila_listener (e1 @ e2)" using e1(5) ih(5) by simp
  have au: "\<exists>extra. auditorias (working s') = auditorias (working s) @ extra
           \<and> list_all fila_listener extra"
    using a l by blast
  have qg: "query_get (productos (working s')) j
         = map_option (\<lambda>p. p\<lparr>stock := stock p - cantidad_pedida (d # ds) j\<rparr>)
             (query_get (productos (working s)) j)"
    using ih(6) e1(1) cp
    by (cases "query_get (productos (working s)) j") (auto simp: s2_def query_get_descontar)
  show ?case
    using ih(1-3) f(1) e1(2,3) au qg by (simp add: s2_def)
qed

lemma total_nueva_venta:
  assumes "\<forall>v\<in>set vs. id_venta v \<noteq> k"
  shows "map (\<lambda>v. if id_venta v = k then v\<lparr>total_v := t\<rparr> else v) vs = vs"
  using assms by (induction vs) auto

subsection \<open>How a call ends\<close>

lemma intentar_venta_Inr:
  assumes "intentar_venta env s idc idu fo ds = Inr (r, s')"
  shows "verificar_stock env 0 s ds = Inr (Some r, s') \<or>
         (\<exists>s1 s3 w tot s5.
            verificar_stock env 0 s ds = Inr (None, s1)
            \<and> flush env (s1\<lparr>working := (working s1)\<lparr>ventas := ventas (working s1) @
                    [\<lparr>id_venta = nuevo_id (map id_venta (ventas (working s1))),
                      fecha_venta = (case fo of None \<Rightarrow> hoy env | Some f \<Rightarrow> f),
                      id_cliente = idc, id_usuario = idu, total_v = 0\<rparr>]\<rparr>\<rparr>) = Inr s3
            \<and> insertar_detalles (arit env) (nuevo_id (map id_venta (ventas (working s1)))) ds
                 (working s3) 0 = Inr (w, tot)
            \<and> actualizar_stock env 0 ds
                 (s3\<lparr>working := w\<lparr>ventas :=
                     map (\<lambda>v. if id_venta v = nuevo_id (map id_venta (ventas (working s1)))
                                then v\<lparr>total_v := columna (arit env) tot\<rparr> else v)
                       (ventas w)\<rparr>\<rparr>) = Inr s5
            \<and> commit env (s5\<lparr>working := add_auditoria (working s5) ''Venta'' ''INSERT''
                   (nuevo_id (map id_venta (ventas (working s1)))) ''system''
                   (msg_venta_registrada idc tot)\<rparr>) = Inr s'
            \<and> r = \<lparr>status = ''success'', mensaje = ''Venta registrada exitosamente'',
                    venta_id = nuevo_id (map id_venta (ventas (working s1))),
                    total_venta = tot\<rparr>)"
  using assms
  by (auto simp: intentar_venta_def Let_def split: sum.splits option.splits prod.splits)

lemma registrar_venta_Inr:
  assumes "registrar_venta env s idc idu fo dps = (r, s')" "status r = ''success''"
  shows "intentar_venta env s idc idu fo (lineas dps) = Inr (r, s')"
  using assms
  by (auto simp: registrar_venta_def Let_def resultado_error_def split: sum.splits)

lemma rollback_limpia: "limpia s \<Longrightarrow> rollback s = s"
  by (simp add: limpia_def rollback_def)

lemma registrar_venta_cases:
  assumes "registrar_venta env s idc idu fo dps = (r, s')"
  shows "(\<exists>e. intentar_venta env s idc idu fo (lineas dps) = Inl e
            \<and> r = resultado_error (''Error al registrar venta: '' @ str_exc e) \<and> s' = rollback s)
       \<or> verificar_stock env 0 s (lineas dps) = Inr (Some r, s')
       \<or> (status r = ''success'' \<and> (\<exists>vs. venta_id r = nuevo_id vs))"
proof (cases "intentar_venta env s idc idu fo (lineas dps)")
  case (Inl e)
  with assms show ?thesis by (simp add: registrar_venta_def Let_def)
next
  case (Inr rs)
  with assms have "intentar_venta env s idc idu fo (lineas dps) = Inr (r, s')"
    by (simp add: registrar_venta_def Let_def)
  from intentar_venta_Inr [OF this] show ?thesis by auto
qed

lemma registrar_venta_success:
  assumes "registrar_venta env s idc idu fo dps = (r, s')" "status r = ''success''"
  shows "\<exists>nuevos antes despues s1.
      verificar_stock env 0 s (lineas dps) = Inr (None, s1)
    \<and> r = \<lparr>status = ''success'', mensaje = ''Venta registrada exitosamente'',
            venta_id = nuevo_id (map id_venta (ventas (working s))),
            total_venta = total_pedido (arit env) (lineas dps)\<rparr>
    \<and> ventas (committed s') = ventas (working s) @
          [\<lparr>id_venta = nuevo_id (map id_venta (ventas (working s))),
            fecha_venta = (case fo of None \<Rightarrow> hoy env | Some f \<Rightarrow> f),
            id_cliente = idc, id_usuario = idu,
            total_v = columna (arit env) (total_pedido (arit env) (lineas dps))\<rparr>]
    \<and> detalles (committed s') = detalles (working s) @ nuevos
    \<and> map (\<lambda>dv. Some (dv_id_producto dv)) nuevos = map dp_id_producto (lineas dps)
    \<and> map (\<lambda>dv. Some (cantidad dv)) nuevos = map dp_cant (lineas dps)
    \<and> map (\<lambda>dv. Some (precio_unitario dv)) nuevos
          = map (\<lambda>d. map_option (columna (arit env)) (dp_precio d)) (lineas dps)
    \<and> (\<forall>dv\<in>set nuevos. dv_id_venta dv = nuevo_id (map id_venta (ventas (working s))))
    \<and> auditorias (committed s') = auditorias (working s) @ antes @
          [\<lparr>tabla = ''Venta'', accion = ''INSERT'',
            id_registro = nuevo_id (map id_venta (ventas (working s))),
            usuario_sql = ''system'',
            datos = msg_venta_registrada idc (total_pedido (arit env) (lineas dps))\<rparr>]
          @ despues
    \<and> list_all fila_listener antes \<and> list_all fila_listener despues
    \<and> (\<forall>j. query_get (productos (committed s')) j
          = map_option (\<lambda>p. p\<lparr>stock := stock p - cantidad_pedida (lineas dps) j\<rparr>)
              (query_get (productos (working s)) j))
    \<and> limpia s'"
proof -
  define ds where "ds = lineas dps"
  define fecha where "fecha = (case fo of None \<Rightarrow> hoy env | Some f \<Rightarrow> f)"
  have i: "intentar_venta env s idc idu fo ds = Inr (r, s')"
    using registrar_venta_Inr [OF assms] by (simp add: ds_def)
  have ne: "verificar_stock env 0 s ds \<noteq> Inr (Some r, s')"
    using verificar_stock_error [of env 0 s ds r s'] assms(2) by auto
  from intentar_venta_Inr [OF i] ne obtain s1 s3 w tot s5 where
    v: "verificar_stock env 0 s ds = Inr (None, s1)" and
    fl: "flush env (s1\<lparr>working := (working s1)\<lparr>ventas := ventas (working s1) @
                    [\<lparr>id_venta = nuevo_id (map id_venta (ventas (working s1))),
                      fecha_venta = fecha,
                      id_cliente = idc, id_usuario = idu, total_v = 0\<rparr>]\<rparr>\<rparr>) = Inr s3" and
    ins: "insertar_detalles (arit env) (nuevo_id (map id_venta (ventas (working s1)))) ds
                 (working s3) 0 = Inr (w, tot)" and
    act: "actualizar_stock env 0 ds
                 (s3\<lparr>working := w\<lparr>ventas :=
                     map (\<lambda>v. if id_venta v = nuevo_id (map id_venta (ventas (working s1)))
                                then v\<lparr>total_v := columna (arit env) tot\<rparr> else v)
                       (ventas w)\<rparr>\<rparr>) = Inr s5" and
    com: "commit env (s5\<lparr>working := add_auditoria (working s5) ''Venta'' ''INSERT''
                   (nuevo_id (map id_venta (ventas (working s1)))) ''system''
                   (msg_venta_registrada idc tot)\<rparr>) = Inr s'" and
    r: "r = \<lparr>status = ''success'', mensaje = ''Venta registrada exitosamente'',
             venta_id = nuevo_id (map id_venta (ventas (working s1))), total_venta = tot\<rparr>"
    unfolding fecha_def by blast
  from verificar_stock_frame [OF v] obtain e0 where f1:
    "productos (working s1) = productos (working s)" "ventas (working s1) = ventas (working s)"
    "detalles (working s1) = detalles (working s)"
    "auditorias (working s1) = auditorias (working s) @ e0" "list_all fila_listener e0"
    by (auto simp: mas_listener_def)
  define idv where "idv = nuevo_id (map id_venta (ventas (working s)))"
  have idv: "nuevo_id (map id_venta (ventas (working s1))) = idv"
    using f1(2) by (simp add: idv_def)
  define v0 where "v0 = \<lparr>id_venta = idv, fecha_venta = fecha, id_cliente = idc,
     id_usuario = idu, total_v = (0::rat)\<rparr>"
  from flush_Inr(3) [OF fl] obtain e1 where f3:
    "productos (working s3) = productos (working s)"
    "ventas (working s3) = ventas (working s) @ [v0]"
    "detalles (working s3) = detalles (working s)"
    "auditorias (working s3) = auditorias (working s) @ e0 @ e1" "list_all fila_listener e1"
    using f1 idv by (auto simp: mas_listener_def v0_def)
  from insertar_detalles_Inr [OF ins] obtain nuevos where n:
    "w = (working s3)\<lparr>detalles := detalles (working s3) @ nuevos\<rparr>"
    "map (\<lambda>dv. Some (dv_id_producto dv)) nuevos = map dp_id_producto ds"
    "map (\<lambda>dv. Some (cantidad dv)) nuevos = map dp_cant ds"
    "map (\<lambda>dv. Some (precio_unitario dv)) nuevos
        = map (\<lambda>d. map_option (columna (arit env)) (dp_precio d)) ds"
    "\<forall>dv\<in>set nuevos. dv_id_venta dv = idv"
    "tot = foldl (suma_float (arit env)) 0 (map (subtotal_pedido (arit env)) ds)"
    unfolding idv by blast
  have tot: "tot = total_pedido (arit env) ds" using n(6) by (simp add: total_pedido_def)
  have old: "\<forall>v\<in>set (ventas (working s)). id_venta v \<noteq> idv"
  proof
    fix v assume "v \<in> set (ventas (working s))"
    then have "id_venta v \<in> set (map id_venta (ventas (working s)))" by simp
    from nuevo_id_gt [OF this] show "id_venta v \<noteq> idv" by (simp add: idv_def)
  qed
  have vs: "map (\<lambda>v. if id_venta v = idv then v\<lparr>total_v := columna (arit env) tot\<rparr> else v)
              (ventas w) = ventas (working s) @ [v0\<lparr>total_v := columna (arit env) tot\<rparr>]"
    using total_nueva_venta [OF old] n(1) f3(2) by (simp add: v0_def)
  define s4 where "s4 = s3\<lparr>working := w\<lparr>ventas :=
       map (\<lambda>v. if id_venta v = idv then v\<lparr>total_v := columna (arit env) tot\<rparr> else v)
         (ventas w)\<rparr>\<rparr>"
  have act': "actualizar_stock env 0 ds s4 = Inr s5" using act idv by (simp add: s4_def)
  have w4: "productos (working s4) = productos (working s)"
    "ventas (working s4) = ventas (working s) @ [v0\<lparr>total_v := columna (arit env) tot\<rparr>]"
    "detalles (working s4) = detalles (working s) @ nuevos"
    "auditorias (working s4) = auditorias (working s) @ e0 @ e1"
    using vs n(1) f3 by (simp_all add: s4_def)
  have st5: "\<forall>j. query_get (productos (working s5)) j
         = map_option (\<lambda>p. p\<lparr>stock := stock p - cantidad_pedida ds j\<rparr>)
             (query_get (productos (working s)) j)"
    using actualizar_stock_Inr [OF act'] w4(1) by simp
  from actualizar_stock_Inr [OF act', of 0] obtain e2 where f5:
    "ventas (working s5) = ventas (working s) @ [v0\<lparr>total_v := columna (arit env) tot\<rparr>]"
    "detalles (working s5) = detalles (working s) @ nuevos"
    "auditorias (working s5) = auditorias (working s) @ e0 @ e1 @ e2" "list_all fila_listener e2"
    using w4 by auto
  define fila where "fila = \<lparr>tabla = ''Venta'', accion = ''INSERT'', id_registro = idv,
      usuario_sql = ''system'', datos = msg_venta_registrada idc tot\<rparr>"
  define s6 where "s6 = s5\<lparr>working := add_auditoria (working s5) ''Venta'' ''INSERT''
                   idv ''system'' (msg_venta_registrada idc tot)\<rparr>"
  have com': "commit env s6 = Inr s'" using com idv by (simp add: s6_def)
  have w6: "productos (working s6) = productos (working s5)"
    "ventas (working s6) = ventas (working s) @ [v0\<lparr>total_v := columna (arit env) tot\<rparr>]"
    "detalles (working s6) = detalles (working s) @ nuevos"
    "auditorias (working s6) = auditorias (working s) @ (e0 @ e1 @ e2) @ [fila]"
    using f5 by (simp_all add: s6_def add_auditoria_def fila_def)
  note c = commit_Inr [OF com']
  from c(3) obtain e3 where f7:
    "productos (committed s') = productos (working s5)"
    "ventas (committed s') = ventas (working s) @ [v0\<lparr>total_v := columna (arit env) tot\<rparr>]"
    "detalles (committed s') = detalles (working s) @ nuevos"
    "auditorias (committed s') = auditorias (working s) @ (e0 @ e1 @ e2) @ [fila] @ e3"
    "list_all fila_listener e3"
    using w6 by (auto simp: mas_listener_def)
  have la: "list_all fila_listener (e0 @ e1 @ e2)" using f1(5) f3(5) f5(4) by simp
  have st: "\<forall>j. query_get (productos (committed s')) j
          = map_option (\<lambda>p. p\<lparr>stock := stock p - cantidad_pedida ds j\<rparr>)
              (query_get (productos (working s)) j)"
    using st5 f7(1) by simp
  have l: "limpia s'" using c(1,2) by (simp add: limpia_def)
  have r': "r = \<lparr>status = ''success'', mensaje = ''Venta registrada exitosamente'',
             venta_id = idv, total_venta = total_pedido (arit env) ds\<rparr>"
    using r idv tot by simp
  show ?thesis
    apply (rule exI [of _ nuevos], rule exI [of _ "e0 @ e1 @ e2"], rule exI [of _ e3],
        rule exI [of _ s1])
    using v r' f7(2,3,4,5) n(2-5) la st l
    unfolding ds_def [symmetric] idv_def [symmetric] fecha_def [symmetric]
    by (simp add: v0_def fila_def tot)
qed

subsection \<open>The request layer\<close>

lemma armar_detalles_precio:
  "armar_detalles ar ps is cs acc = Inr ds \<Longrightarrow> list_all (precio_vigente ar ps) acc
     \<Longrightarrow> list_all (precio_vigente ar ps) ds"
proof (induction ar ps "is" cs acc rule: armar_detalles.induct)
  case (1 ar ps cs acc)
  then show ?case by simp
next
  case (2 ar ps i "is" acc)
  then show ?case by simp
next
  case (3 ar ps i "is" c cs acc)
  show ?case
  proof (cases "c \<le> 0")
    case True
    then have "armar_detalles ar ps is cs acc = Inr ds" using "3.prems"(1) by simp
    then show ?thesis using "3.IH"(1) [OF True] "3.prems"(2) by blast
  next
    case False
    show ?thesis
    proof (cases "query_get ps i")
      case None
      then have "armar_detalles ar ps is cs acc = Inr ds" using "3.prems"(1) False by simp
      then show ?thesis using "3.IH"(2) [OF False None] "3.prems"(2) by blast
    next
      case (Some p)
      with False "3.prems"(1) have
        "armar_detalles ar ps is cs (acc @ [\<lparr>dp_id_producto = Some i, dp_cant = Some c,
             dp_precio = Some (float_de ar (precio p))\<rparr>]) = Inr ds"
        by simp
      moreover have "precio_vigente ar ps \<lparr>dp_id_producto = Some i,
             dp_cant = Some c, dp_precio = Some (float_de ar (precio p))\<rparr>"
        using Some by (simp add: precio_vigente_def)
      then have "list_all (precio_vigente ar ps) (acc @ [\<lparr>dp_id_producto = Some i,
             dp_cant = Some c, dp_precio = Some (float_de ar (precio p))\<rparr>])"
        using "3.prems"(2) by simp
      ultimately show ?thesis using "3.IH"(3) [OF False Some] by blast
    qed
  qed
qed

lemma nueva_venta_success:
  assumes "nueva_venta env s u idc ids cs = (Inr resp, s')" "categoria resp = ''success''"
  shows "\<exists>dets r. armar_detalles (arit env) (productos (working s)) ids cs [] = Inr dets
     \<and> registrar_venta env s idc u (Some (hoy_servidor env)) (Some dets) = (r, s')
     \<and> status r = ''success''"
proof (cases "armar_detalles (arit env) (productos (working s)) ids cs []")
  case (Inl e)
  with assms(1) show ?thesis by (simp add: nueva_venta_def)
next
  case (Inr dets)
  show ?thesis
  proof (cases "dets = []")
    case True
    with Inr assms show ?thesis by (auto simp: nueva_venta_def)
  next
    case False
    obtain r s1 where rs: "registrar_venta env s idc u (Some (hoy_servidor env)) (Some dets) = (r, s1)"
      by (cases "registrar_venta env s idc u (Some (hoy_servidor env)) (Some dets)")
    show ?thesis
    proof (cases "status r = ''success''")
      case True
      with Inr False rs assms(1) have "s' = s1" by (simp add: nueva_venta_def Let_def)
      with Inr rs True show ?thesis by blast
    next
      case f: False
      with Inr False rs assms(1) have "categoria resp = ''danger''"
        by (auto simp: nueva_venta_def Let_def)
      with assms(2) show ?thesis by simp
    qed
  qed
qed

subsection \<open>Concrete runs and list facts\<close>

lemmas corrida = registrar_venta_def intentar_venta_def lineas_def linea_def sesion0_def tienda_def
  laptop_def mouse_def sin_fallas_def aritmetica_exacta_def getitem_def query_get_def flush_def
  commit_def volcar_def producto_query_get_def columna_def nuevo_id_def subtotal_def
  descontar_def add_auditoria_def auditoria_producto_update_def resultado_error_def
  nueva_venta_def Let_def

lemma map_Some_nth:
  assumes "map (\<lambda>x. Some (f x)) xs = map g ys" "k < length xs"
  shows "g (ys ! k) = Some (f (xs ! k))"
proof -
  have "length xs = length ys" using assms(1) by (metis length_map)
  moreover have "map (\<lambda>x. Some (f x)) xs ! k = map g ys ! k" using assms(1) by simp
  ultimately show ?thesis using assms(2) by simp
qed

subsection \<open>The first line that lacks stock\<close>

lemma verificar_stock_falta:
  "list_all (linea_existente (productos (working s))) ds
     \<Longrightarrow> find (falta_stock (productos (working s))) ds = Some d \<Longrightarrow>
     \<exists>i c p s1. dp_id_producto d = Some i \<and> dp_cant d = Some c
        \<and> query_get (productos (working s)) i = Some p \<and> stock p < c
        \<and> verificar_stock env k s ds
            = Inr (Some (resultado_error (msg_stock_insuficiente p c)), s1)"
proof (induction ds arbitrary: k s)
  case Nil
  then show ?case by simp
next
  case (Cons x xs)
  from Cons.prems(1) obtain i c p where x:
    "dp_id_producto x = Some i" "dp_cant x = Some c"
    "query_get (productos (working s)) i = Some p"
    by (auto simp: linea_existente_def split: option.splits)
  obtain s2 po where q: "producto_query_get env 1 k s i = (s2, po)"
    by (cases "producto_query_get env 1 k s i")
  note f = producto_query_get_frame [OF q]
  have po: "po = Some p" using f(3) x(3) by simp
  have ps: "productos (working s2) = productos (working s)"
    using f(2) by (simp add: mas_listener_def)
  show ?case
  proof (cases "stock p < c")
    case True
    then have "falta_stock (productos (working s)) x" using x by (simp add: falta_stock_def)
    with Cons.prems(2) have "d = x" by simp
    with x True q po show ?thesis by (simp add: getitem_def)
  next
    case False
    then have nf: "\<not> falta_stock (productos (working s)) x" using x by (simp add: falta_stock_def)
    with Cons.prems(2) have fd: "find (falta_stock (productos (working s2))) xs = Some d"
      using ps by simp
    from Cons.prems(1) have "list_all (linea_existente (productos (working s2))) xs"
      using ps by simp
    from Cons.IH [OF this fd, of "Suc k"] obtain i' c' p' s1 where
      "dp_id_producto d = Some i'" "dp_cant d = Some c'"
      "query_get (productos (working s2)) i' = Some p'" "stock p' < c'"
      "verificar_stock env (Suc k) s2 xs
         = Inr (Some (resultado_error (msg_stock_insuficiente p' c')), s1)"
      by blast
    with x False q po ps show ?thesis by (simp add: getitem_def)
  qed
qed

text \<open>
  When every line names an existing product and a quantity, and some line asks more than
  its product has in stock, the call returns the error result of the first such line and
  commits nothing.
\<close>

lemma registrar_venta_linea_sin_stock:
  assumes "list_all (linea_existente (productos (working s))) (lineas dps)"
    and "list_ex (falta_stock (productos (working s))) (lineas dps)"
  shows "\<exists>d i c p s1. find (falta_stock (productos (working s))) (lineas dps) = Some d
     \<and> dp_id_producto d = Some i \<and> dp_cant d = Some c
     \<and> query_get (productos (working s)) i = Some p \<and> stock p < c
     \<and> registrar_venta env s idc idu fo dps
         = (\<lparr>status = ''error'',
             mensaje = ''Stock insuficiente para '' @ [comilla] @ nombre_producto p @ [comilla]
               @ '' (ID: '' @ str_int i @ ''). ''
               @ ''Solicitado: '' @ str_int c @ '', Disponible: '' @ str_int (stock p),
             venta_id = 0, total_venta = 0\<rparr>, s1)
     \<and> committed s1 = committed s \<and> (modificados s = [] \<longrightarrow> s1 = s)"
proof -
  have "find (falta_stock (productos (working s))) (lineas dps) \<noteq> None"
    using assms(2) by (auto simp: find_None_iff list_ex_iff)
  then obtain d where d: "find (falta_stock (productos (working s))) (lineas dps) = Some d"
    by (cases "find (falta_stock (productos (working s))) (lineas dps)") simp_all
  from verificar_stock_falta [OF assms(1) d, of env 0] obtain i c p s1 where v:
    "dp_id_producto d = Some i" "dp_cant d = Some c" "query_get (productos (working s)) i = Some p"
    "stock p < c"
    "verificar_stock env 0 s (lineas dps)
       = Inr (Some (resultado_error (msg_stock_insuficiente p c)), s1)"
    by blast
  have "id_producto p = i" using v(3) by (rule query_get_id)
  then have "registrar_venta env s idc idu fo dps
         = (\<lparr>status = ''error'',
             mensaje = ''Stock insuficiente para '' @ [comilla] @ nombre_producto p @ [comilla]
               @ '' (ID: '' @ str_int i @ ''). ''
               @ ''Solicitado: '' @ str_int c @ '', Disponible: '' @ str_int (stock p),
             venta_id = 0, total_venta = 0\<rparr>, s1)"
    using v(5)
    by (simp add: registrar_venta_def intentar_venta_def Let_def resultado_error_def
        msg_stock_insuficiente_def)
  moreover have "committed s1 = committed s \<and> (modificados s = [] \<longrightarrow> s1 = s)"
    using verificar_stock_frame [OF v(5)] by simp
  ultimately show ?thesis using d v(1-4) by blast
qed

subsection \<open>The empty request\<close>

lemma registrar_venta_vacia:
  assumes "flush_falla env = None" "commit_falla env = None" "lineas dps = []"
  shows "status (fst (registrar_venta env s idc idu fo dps)) = ''success''"
  using assms
  by (simp add: registrar_venta_def intentar_venta_def flush_def commit_def Let_def)

subsection \<open>Counting the products of a request\<close>

lemma productos_distintos_lineas:
  assumes "distinct (map dp_id_producto ds)" "list_all cantidad_positiva ds"
  shows "productos_distintos ds = length ds"
proof -
  have "filter cantidad_positiva ds = ds" using assms(2) by (simp add: list_all_iff)
  then show ?thesis using assms(1) by (simp add: productos_distintos_def distinct_remdups_id)
qed

subsection \<open>What later operations leave alone\<close>

lemma editar_producto_tablas:
  "ventas (committed (snd (editar_producto env s i form)))
     \<in> {ventas (committed s), ventas (working s)}
   \<and> detalles (committed (snd (editar_producto env s i form)))
     \<in> {detalles (committed s), detalles (working s)}"
proof (cases "query_get (productos (working s)) i")
  case None
  then show ?thesis by (simp add: editar_producto_def)
next
  case (Some p)
  define s1 where "s1 = s\<lparr>working := (working s)\<lparr>productos :=
      map (\<lambda>p. if id_producto p = i
                 then p\<lparr>nombre_producto := f_nombre_producto form,
                        descripcion := f_descripcion form,
                        precio := columna (arit env) (f_precio form), stock := f_stock form\<rparr>
                 else p) (productos (working s))\<rparr>,
      modificados := modificados s @ [i]\<rparr>"
  show ?thesis
  proof (cases "commit env s1")
    case (Inl e)
    with Some have "snd (editar_producto env s i form) = s1"
      by (simp add: editar_producto_def Let_def s1_def)
    then show ?thesis by (simp add: s1_def)
  next
    case (Inr s')
    with Some have "snd (editar_producto env s i form) = s'"
      by (simp add: editar_producto_def Let_def s1_def)
    moreover have "ventas (committed s') = ventas (working s)"
      "detalles (committed s') = detalles (working s)"
      using commit_Inr(3) [OF Inr] by (simp_all add: s1_def mas_listener_def)
    ultimately show ?thesis by simp
  qed
qed

lemma registrar_venta_agrega:
  assumes "limpia s"
  shows "\<exists>vs dvs. ventas (committed (snd (registrar_venta env s idc idu fo dps)))
                = ventas (committed s) @ vs
     \<and> detalles (committed (snd (registrar_venta env s idc idu fo dps)))
                = detalles (committed s) @ dvs"
proof -
  obtain r s' where rs: "registrar_venta env s idc idu fo dps = (r, s')"
    by (cases "registrar_venta env s idc idu fo dps")
  have w: "working s = committed s" using assms by (simp add: limpia_def)
  from registrar_venta_cases [OF rs]
  have "\<exists>vs dvs. ventas (committed s') = ventas (committed s) @ vs
     \<and> detalles (committed s') = detalles (committed s) @ dvs"
  proof (elim disjE exE conjE)
    fix e assume "s' = rollback s"
    then show ?thesis by (simp add: rollback_def)
  next
    assume "verificar_stock env 0 s (lineas dps) = Inr (Some r, s')"
    from verificar_stock_frame [OF this] show ?thesis by simp
  next
    fix vs assume "status r = ''success''"
    from registrar_venta_success [OF rs this] w show ?thesis by auto
  qed
  with rs show ?thesis by simp
qed

subsection \<open>What a successful sale does to the stock\<close>

text \<open>
  A successful call takes from every product exactly the quantity the request asks of it
  over all its lines. When no product is repeated in the request, the stock of every
  product named stays at or above zero.
\<close>

lemma cantidad_pedida_ausente:
  "Some j \<notin> set (map dp_id_producto ds) \<Longrightarrow> cantidad_pedida ds j = 0"
  by (induction ds) (auto simp: cantidad_pedida_def)

lemma cantidad_pedida_unica:
  "distinct (map dp_id_producto ds) \<Longrightarrow> d \<in> set ds \<Longrightarrow> dp_id_producto d = Some j
     \<Longrightarrow> dp_cant d = Some c \<Longrightarrow> cantidad_pedida ds j = c"
proof (induction ds)
  case Nil
  then show ?case by simp
next
  case (Cons x xs)
  have split: "cantidad_pedida (x # xs) j
      = (if dp_id_producto x = Some j then (case dp_cant x of None \<Rightarrow> 0 | Some c \<Rightarrow> c) else 0)
        + cantidad_pedida xs j"
    by (simp add: cantidad_pedida_def)
  show ?case
  proof (cases "d = x")
    case True
    then have "Some j \<notin> set (map dp_id_producto xs)" using Cons.prems(1,3) by auto
    then have "cantidad_pedida xs j = 0" by (rule cantidad_pedida_ausente)
    with True Cons.prems(3,4) split show ?thesis by simp
  next
    case False
    then have m: "d \<in> set xs" using Cons.prems(2) by simp
    then have "dp_id_producto x \<noteq> Some j" using Cons.prems(1,3) by force
    moreover have "cantidad_pedida xs j = c"
      using Cons.IH m Cons.prems(1,3,4) by simp
    ultimately show ?thesis using split by simp
  qed
qed

lemma registrar_venta_descuenta_stock:
  assumes "registrar_venta env s idc idu fo dps = (r, s')" and "status r = ''success''"
  shows "map_option stock (query_get (productos (committed s')) j)
     = map_option (\<lambda>n. n - cantidad_pedida (lineas dps) j)
         (map_option stock (query_get (productos (working s)) j))"
proof -
  from registrar_venta_success [OF assms] have
    "query_get (productos (committed s')) j
       = map_option (\<lambda>p. p\<lparr>stock := stock p - cantidad_pedida (lineas dps) j\<rparr>)
           (query_get (productos (working s)) j)"
    by blast
  then show ?thesis by (cases "query_get (productos (working s)) j") simp_all
qed

lemma registrar_venta_stock_no_negativo:
  assumes "registrar_venta env s idc idu fo dps = (r, s')" and "status r = ''success''"
    and "distinct (map dp_id_producto (lineas dps))"
    and "d \<in> set (lineas dps)" and "dp_id_producto d = Some j"
  shows "\<exists>n. map_option stock (query_get (productos (committed s')) j) = Some n \<and> 0 \<le> n"
proof -
  from registrar_venta_success [OF assms(1,2)] obtain s1 where
    "verificar_stock env 0 s (lineas dps) = Inr (None, s1)"
    by blast
  from verificar_stock_ok [OF this assms(4)] assms(5) obtain c p where
    k: "dp_cant d = Some c" "query_get (productos (working s)) j = Some p" "c \<le> stock p"
    by auto
  have "cantidad_pedida (lineas dps) j = c"
    using cantidad_pedida_unica [OF assms(3,4,5) k(1)] .
  with registrar_venta_descuenta_stock [OF assms(1,2), of j] k(2,3) show ?thesis by auto
qed

section \<open>The claims\<close>

text \<open>
  C8. The permission check is total and is exactly the fixed table: admin may create,
  read, update, delete, sell and report; the seller may read, sell and update customers;
  the viewer may read and report. A role outside the three has no permission at all.
\<close>

theorem tiene_permiso_tabla:
  "(tiene_permiso rol acc =
     (rol = ''admin'' \<and>
        acc \<in> {''crear'', ''leer'', ''actualizar'', ''eliminar'', ''ventas'', ''reportes''}
      \<or> rol = ''vendedor'' \<and> acc \<in> {''leer'', ''ventas'', ''actualizar_cliente''}
      \<or> rol = ''consulta'' \<and> acc \<in> {''leer'', ''reportes''}))
   \<and> (rol \<notin> {''admin'', ''vendedor'', ''consulta''} \<longrightarrow> \<not> tiene_permiso rol acc)"
  by (simp add: tiene_permiso_def permisos_def)

text \<open>A role that is not in the table, and a seller who sells but does not delete.\<close>

theorem tiene_permiso_tabla_witness:
  "''gerente'' \<notin> {''admin'', ''vendedor'', ''consulta''}
   \<and> \<not> tiene_permiso ''gerente'' ''leer''
   \<and> tiene_permiso ''vendedor'' ''ventas''
   \<and> \<not> tiene_permiso ''vendedor'' ''eliminar''"
  using tiene_permiso_tabla [of "''gerente''" "''leer''"]
    tiene_permiso_tabla [of "''vendedor''" "''ventas''"]
    tiene_permiso_tabla [of "''vendedor''" "''eliminar''"]
  by simp

text \<open>
  C1 (as the code has it). For every successful call of \<^verbatim>\<open>registrar_venta\<close>, each new
  line item holds the unit price given in its request line (the key \<^verbatim>\<open>precio\<close>) as the
  \<^verbatim>\<open>Numeric(10, 2)\<close> column keeps it, and the returned total is the floating point sum,
  in the order of the request, of \<^verbatim>\<open>float(cant) * float(precio)\<close> of the lines; neither
  is read from the product. The request layer \<^verbatim>\<open>nueva_venta\<close> gives
  \<^verbatim>\<open>float(producto.precio)\<close> as the price of a line, so every line item of a sale made
  through it holds what the column keeps of the float of the price its product had when
  the request was handled.
\<close>

theorem registrar_venta_precio_pedido:
  "(registrar_venta env s idc idu fo dps = (r, s') \<and> status r = ''success'' \<longrightarrow>
      (\<exists>nuevos. detalles (committed s') = detalles (working s) @ nuevos
         \<and> map (\<lambda>dv. Some (dv_id_producto dv)) nuevos = map dp_id_producto (lineas dps)
         \<and> map (\<lambda>dv. Some (cantidad dv)) nuevos = map dp_cant (lineas dps)
         \<and> map (\<lambda>dv. Some (precio_unitario dv)) nuevos
             = map (\<lambda>d. map_option (columna (arit env)) (dp_precio d)) (lineas dps)
         \<and> total_venta r = total_pedido (arit env) (lineas dps)))
   \<and> (nueva_venta env s idu idc ids cs = (Inr resp, s2) \<and> categoria resp = ''success'' \<longrightarrow>
      (\<exists>nuevos. detalles (committed s2) = detalles (working s) @ nuevos
         \<and> (\<forall>dv\<in>set nuevos. \<exists>p. query_get (productos (working s)) (dv_id_producto dv) = Some p
               \<and> precio_unitario dv = columna (arit env) (float_de (arit env) (precio p)))))"
proof (intro conjI impI)
  assume a: "registrar_venta env s idc idu fo dps = (r, s') \<and> status r = ''success''"
  then have a1: "registrar_venta env s idc idu fo dps = (r, s')" and a2: "status r = ''success''"
    by simp_all
  from registrar_venta_success [OF a1 a2] obtain nuevos antes despues s1 where n:
    "r = \<lparr>status = ''success'', mensaje = ''Venta registrada exitosamente'',
            venta_id = nuevo_id (map id_venta (ventas (working s))),
            total_venta = total_pedido (arit env) (lineas dps)\<rparr>"
    "detalles (committed s') = detalles (working s) @ nuevos"
    "map (\<lambda>dv. Some (dv_id_producto dv)) nuevos = map dp_id_producto (lineas dps)"
    "map (\<lambda>dv. Some (cantidad dv)) nuevos = map dp_cant (lineas dps)"
    "map (\<lambda>dv. Some (precio_unitario dv)) nuevos
       = map (\<lambda>d. map_option (columna (arit env)) (dp_precio d)) (lineas dps)"
    by (elim exE conjE)
  have "total_venta r = total_pedido (arit env) (lineas dps)" using n(1) by simp
  with n(2-5) show "\<exists>nuevos. detalles (committed s') = detalles (working s) @ nuevos
         \<and> map (\<lambda>dv. Some (dv_id_producto dv)) nuevos = map dp_id_producto (lineas dps)
         \<and> map (\<lambda>dv. Some (cantidad dv)) nuevos = map dp_cant (lineas dps)
         \<and> map (\<lambda>dv. Some (precio_unitario dv)) nuevos
             = map (\<lambda>d. map_option (columna (arit env)) (dp_precio d)) (lineas dps)
         \<and> total_venta r = total_pedido (arit env) (lineas dps)"
    by (intro exI [of _ nuevos] conjI)
next
  assume a: "nueva_venta env s idu idc ids cs = (Inr resp, s2) \<and> categoria resp = ''success''"
  then have a1: "nueva_venta env s idu idc ids cs = (Inr resp, s2)"
    and a2: "categoria resp = ''success''" by simp_all
  from nueva_venta_success [OF a1 a2] obtain dets r where d:
    "armar_detalles (arit env) (productos (working s)) ids cs [] = Inr dets"
    "registrar_venta env s idc idu (Some (hoy_servidor env)) (Some dets) = (r, s2)"
    "status r = ''success''"
    by (elim exE conjE)
  from registrar_venta_success [OF d(2,3)] obtain nuevos antes despues s1 where n0:
    "detalles (committed s2) = detalles (working s) @ nuevos"
    "map (\<lambda>dv. Some (dv_id_producto dv)) nuevos = map dp_id_producto (lineas (Some dets))"
    "map (\<lambda>dv. Some (precio_unitario dv)) nuevos
       = map (\<lambda>d. map_option (columna (arit env)) (dp_precio d)) (lineas (Some dets))"
    by (elim exE conjE)
  have n: "map (\<lambda>dv. Some (dv_id_producto dv)) nuevos = map dp_id_producto dets"
    "map (\<lambda>dv. Some (precio_unitario dv)) nuevos
       = map (\<lambda>d. map_option (columna (arit env)) (dp_precio d)) dets"
    using n0(2,3) by (simp_all add: lineas_def)
  have pr: "list_all (precio_vigente (arit env) (productos (working s))) dets"
    using armar_detalles_precio [OF d(1)] by simp
  have "\<forall>dv\<in>set nuevos. \<exists>p. query_get (productos (working s)) (dv_id_producto dv) = Some p
               \<and> precio_unitario dv = columna (arit env) (float_de (arit env) (precio p))"
  proof
    fix dv assume "dv \<in> set nuevos"
    then obtain k where k: "k < length nuevos" "nuevos ! k = dv"
      by (auto simp: in_set_conv_nth)
    have len: "length nuevos = length dets" using n(1) by (metis length_map)
    have e1: "dp_id_producto (dets ! k) = Some (dv_id_producto dv)"
      using map_Some_nth [OF n(1) k(1)] k(2) by simp
    have e2: "map_option (columna (arit env)) (dp_precio (dets ! k)) = Some (precio_unitario dv)"
      using map_Some_nth [OF n(2) k(1)] k(2) by simp
    have "precio_vigente (arit env) (productos (working s)) (dets ! k)"
      using pr k(1) len by (simp add: list_all_length)
    with e1 e2 show "\<exists>p. query_get (productos (working s)) (dv_id_producto dv) = Some p
               \<and> precio_unitario dv = columna (arit env) (float_de (arit env) (precio p))"
      by (auto simp: precio_vigente_def split: option.splits)
  qed
  with n0(1) show "\<exists>nuevos. detalles (committed s2) = detalles (working s) @ nuevos
         \<and> (\<forall>dv\<in>set nuevos. \<exists>p. query_get (productos (working s)) (dv_id_producto dv) = Some p
               \<and> precio_unitario dv = columna (arit env) (float_de (arit env) (precio p)))"
    by blast
qed

text \<open>The sale of two laptops at 850, called directly and through \<^verbatim>\<open>nueva_venta\<close>.\<close>

theorem registrar_venta_precio_pedido_witness:
  "(status (fst (registrar_venta sin_fallas sesion0 7 3 None (Some [linea 1 2 850]))) = ''success''
    \<and> (\<exists>nuevos.
          detalles (committed (snd (registrar_venta sin_fallas sesion0 7 3 None
              (Some [linea 1 2 850])))) = detalles (working sesion0) @ nuevos
          \<and> map (\<lambda>dv. Some (precio_unitario dv)) nuevos
               = map (\<lambda>d. map_option (columna (arit sin_fallas)) (dp_precio d))
                   (lineas (Some [linea 1 2 850]))
          \<and> total_venta (fst (registrar_venta sin_fallas sesion0 7 3 None (Some [linea 1 2 850])))
               = total_pedido (arit sin_fallas) (lineas (Some [linea 1 2 850]))))
   \<and> (fst (nueva_venta sin_fallas sesion0 3 7 [1] [2])
         = Inr \<lparr>flash = ''Venta registrada exitosamente'', categoria = ''success'',
                destino = ''detalle_venta'', destino_id = Some 1\<rparr>
      \<and> (\<exists>nuevos.
            detalles (committed (snd (nueva_venta sin_fallas sesion0 3 7 [1] [2])))
              = detalles (working sesion0) @ nuevos
            \<and> (\<forall>dv\<in>set nuevos. \<exists>p.
                  query_get (productos (working sesion0)) (dv_id_producto dv) = Some p
                  \<and> precio_unitario dv
                      = columna (arit sin_fallas) (float_de (arit sin_fallas) (precio p)))))"
proof -
  have h1: "registrar_venta sin_fallas sesion0 7 3 None (Some [linea 1 2 850])
              = (fst (registrar_venta sin_fallas sesion0 7 3 None (Some [linea 1 2 850])),
                 snd (registrar_venta sin_fallas sesion0 7 3 None (Some [linea 1 2 850])))
            \<and> status (fst (registrar_venta sin_fallas sesion0 7 3 None (Some [linea 1 2 850])))
                = ''success''"
    by (simp add: corrida)
  have f2: "fst (nueva_venta sin_fallas sesion0 3 7 [1] [2])
         = Inr \<lparr>flash = ''Venta registrada exitosamente'', categoria = ''success'',
                destino = ''detalle_venta'', destino_id = Some 1\<rparr>"
    by (simp add: corrida)
  then have h2: "nueva_venta sin_fallas sesion0 3 7 [1] [2]
         = (Inr \<lparr>flash = ''Venta registrada exitosamente'', categoria = ''success'',
                  destino = ''detalle_venta'', destino_id = Some 1\<rparr>,
            snd (nueva_venta sin_fallas sesion0 3 7 [1] [2]))
       \<and> categoria \<lparr>flash = ''Venta registrada exitosamente'', categoria = ''success'',
                  destino = ''detalle_venta'', destino_id = Some 1\<rparr> = ''success''"
    by (simp add: prod_eq_iff)
  note t = registrar_venta_precio_pedido [of sin_fallas sesion0 7 3 None "Some [linea 1 2 850]"
      "fst (registrar_venta sin_fallas sesion0 7 3 None (Some [linea 1 2 850]))"
      "snd (registrar_venta sin_fallas sesion0 7 3 None (Some [linea 1 2 850]))"
      "[1]" "[2]"
      "\<lparr>flash = ''Venta registrada exitosamente'', categoria = ''success'',
        destino = ''detalle_venta'', destino_id = Some 1\<rparr>"
      "snd (nueva_venta sin_fallas sesion0 3 7 [1] [2])"]
  from t h1 h2 f2 show ?thesis by blast
qed

text \<open>
  C1 as stated fails: a request that gives the price 1 for the laptop, whose price is 850,
  is accepted, and the line item and the total carry the price of the request.
\<close>

theorem registrar_venta_precio_forjado:
  "status (fst (registrar_venta sin_fallas sesion0 7 3 None (Some [linea 1 2 1]))) = ''success''
   \<and> map precio_unitario
        (detalles (committed (snd (registrar_venta sin_fallas sesion0 7 3 None
           (Some [linea 1 2 1]))))) = [1]
   \<and> map_option precio (query_get (productos (working sesion0)) 1) = Some 850
   \<and> total_venta (fst (registrar_venta sin_fallas sesion0 7 3 None (Some [linea 1 2 1]))) = 2"
  by (simp add: corrida)

text \<open>
  C3. Whenever \<^verbatim>\<open>registrar_venta\<close> returns an error result, be it from the stock check or
  from an exception caught by the \<^verbatim>\<open>except\<close> clause, the durable database is the one of
  before the call: the same number of sales, of line items and of audit entries, and the
  same stock for every product. If nothing was pending in the session, the session itself
  is unchanged.
\<close>

theorem registrar_venta_error_sin_cambios:
  assumes "registrar_venta env s idc idu fo dps = (r, s')" and "status r = ''error''"
  shows "committed s' = committed s
     \<and> length (ventas (committed s')) = length (ventas (committed s))
     \<and> length (detalles (committed s')) = length (detalles (committed s))
     \<and> map stock (productos (committed s')) = map stock (productos (committed s))
     \<and> length (auditorias (committed s')) = length (auditorias (committed s))
     \<and> (limpia s \<longrightarrow> s' = s)"
proof -
  have c: "committed s' = committed s \<and> (limpia s \<longrightarrow> s' = s)"
  proof -
    from registrar_venta_cases [OF assms(1)] show ?thesis
    proof (elim disjE exE conjE)
      fix e assume "s' = rollback s"
      then show ?thesis by (auto simp: rollback_limpia) (simp add: rollback_def)
    next
      assume "verificar_stock env 0 s (lineas dps) = Inr (Some r, s')"
      from verificar_stock_frame [OF this] show ?thesis by (simp add: limpia_def)
    next
      fix vs assume "status r = ''success''"
      with assms(2) show ?thesis by simp
    qed
  qed
  then show ?thesis by simp
qed

text \<open>An order of two lines, the second asking ten of a product that has one in stock.\<close>

theorem registrar_venta_error_sin_cambios_witness:
  "status (fst (registrar_venta sin_fallas sesion0 7 3 None (Some [linea 1 2 850, linea 2 10 5])))
     = ''error''
   \<and> limpia sesion0
   \<and> committed (snd (registrar_venta sin_fallas sesion0 7 3 None
        (Some [linea 1 2 850, linea 2 10 5]))) = committed sesion0
   \<and> snd (registrar_venta sin_fallas sesion0 7 3 None (Some [linea 1 2 850, linea 2 10 5]))
       = sesion0"
proof -
  have h1: "registrar_venta sin_fallas sesion0 7 3 None (Some [linea 1 2 850, linea 2 10 5])
     = (fst (registrar_venta sin_fallas sesion0 7 3 None (Some [linea 1 2 850, linea 2 10 5])),
        snd (registrar_venta sin_fallas sesion0 7 3 None (Some [linea 1 2 850, linea 2 10 5])))"
    by simp
  have h2: "status (fst (registrar_venta sin_fallas sesion0 7 3 None
      (Some [linea 1 2 850, linea 2 10 5]))) = ''error''"
    by (simp add: corrida)
  have h3: "limpia sesion0" by (simp add: limpia_def sesion0_def)
  from registrar_venta_error_sin_cambios [OF h1 h2] h2 h3 show ?thesis by blast
qed

text \<open>
  C7. For every input \<^verbatim>\<open>registrar_venta\<close> returns a result whose status is
  \<^verbatim>\<open>success\<close> or \<^verbatim>\<open>error\<close>, with a message, a sale id that is 0 exactly when the status
  is \<^verbatim>\<open>error\<close>, and a total. An exception raised in the \<^verbatim>\<open>try\<close> block never leaves the
  function: it becomes the error result that carries its text, after a rollback.
\<close>

theorem registrar_venta_resultado_estructurado:
  "(status (fst (registrar_venta env s idc idu fo dps)) = ''success''
      \<or> status (fst (registrar_venta env s idc idu fo dps)) = ''error'')
   \<and> (venta_id (fst (registrar_venta env s idc idu fo dps)) = 0)
       = (status (fst (registrar_venta env s idc idu fo dps)) = ''error'')
   \<and> (\<forall>e. intentar_venta env s idc idu fo (lineas dps) = Inl e \<longrightarrow>
         registrar_venta env s idc idu fo dps
           = (\<lparr>status = ''error'', mensaje = ''Error al registrar venta: '' @ str_exc e,
               venta_id = 0, total_venta = 0\<rparr>, rollback s))"
proof -
  obtain r s' where rs: "registrar_venta env s idc idu fo dps = (r, s')"
    by (cases "registrar_venta env s idc idu fo dps")
  have pos: "\<And>vs. nuevo_id vs \<noteq> 0"
  proof -
    fix vs show "nuevo_id vs \<noteq> 0" using nuevo_id_pos [of vs] by simp
  qed
  from registrar_venta_cases [OF rs]
  have "(status r = ''success'' \<or> status r = ''error'') \<and> (venta_id r = 0) = (status r = ''error'')"
  proof (elim disjE exE conjE)
    fix e assume "r = resultado_error (''Error al registrar venta: '' @ str_exc e)"
    then show ?thesis by (simp add: resultado_error_def)
  next
    assume "verificar_stock env 0 s (lineas dps) = Inr (Some r, s')"
    from verificar_stock_error [OF this] show ?thesis by simp
  next
    fix vs assume "status r = ''success''" "venta_id r = nuevo_id vs"
    with pos [of vs] show ?thesis by simp
  qed
  moreover have "\<forall>e. intentar_venta env s idc idu fo (lineas dps) = Inl e \<longrightarrow>
         registrar_venta env s idc idu fo dps
           = (\<lparr>status = ''error'', mensaje = ''Error al registrar venta: '' @ str_exc e,
               venta_id = 0, total_venta = 0\<rparr>, rollback s)"
    by (simp add: registrar_venta_def Let_def resultado_error_def)
  ultimately show ?thesis using rs by simp
qed

text \<open>A request line without the key \<^verbatim>\<open>precio\<close> raises \<^verbatim>\<open>KeyError\<close> after the sale header was flushed.\<close>

theorem registrar_venta_resultado_estructurado_witness:
  "intentar_venta sin_fallas sesion0 7 3 None
      (lineas (Some [\<lparr>dp_id_producto = Some 1, dp_cant = Some 1, dp_precio = None\<rparr>]))
     = Inl (KeyError ''precio'')
   \<and> registrar_venta sin_fallas sesion0 7 3 None
        (Some [\<lparr>dp_id_producto = Some 1, dp_cant = Some 1, dp_precio = None\<rparr>])
     = (\<lparr>status = ''error'',
         mensaje = ''Error al registrar venta: '' @ str_exc (KeyError ''precio''),
         venta_id = 0, total_venta = 0\<rparr>, rollback sesion0)"
proof -
  have h: "intentar_venta sin_fallas sesion0 7 3 None
      (lineas (Some [\<lparr>dp_id_producto = Some 1, dp_cant = Some 1, dp_precio = None\<rparr>]))
     = Inl (KeyError ''precio'')"
    by (simp add: corrida)
  from registrar_venta_resultado_estructurado [of sin_fallas sesion0 7 3 None
      "Some [\<lparr>dp_id_producto = Some 1, dp_cant = Some 1, dp_precio = None\<rparr>]"] h
  show ?thesis by blast
qed

text \<open>
  C2, at a failing input. The stock check looks at one line at a time, so a request that
  names the same product twice passes it with each line within the stock, and step 5
  takes both quantities off: the mouse, with one unit in stock, is sold twice and its
  stock ends at -1. The same happens through \<^verbatim>\<open>nueva_venta\<close>, with a form that repeats the
  product.
\<close>

theorem registrar_venta_stock_negativo:
  "status (fst (registrar_venta sin_fallas sesion0 7 3 None
       (Some [linea 2 1 (25 / 2), linea 2 1 (25 / 2)]))) = ''success''
   \<and> map_option stock (query_get (productos (committed sesion0)) 2) = Some 1
   \<and> map_option stock (query_get (productos (committed (snd (registrar_venta sin_fallas sesion0
        7 3 None (Some [linea 2 1 (25 / 2), linea 2 1 (25 / 2)]))))) 2) = Some (- 1)
   \<and> fst (nueva_venta sin_fallas sesion0 3 7 [2, 2] [1, 1])
        = Inr \<lparr>flash = ''Venta registrada exitosamente'', categoria = ''success'',
               destino = ''detalle_venta'', destino_id = Some 1\<rparr>
   \<and> map_option stock (query_get (productos (committed (snd (nueva_venta sin_fallas sesion0
        3 7 [2, 2] [1, 1])))) 2) = Some (- 1)"
  by (simp add: corrida)

text \<open>
  C4 (as the code has it). \<^verbatim>\<open>registrar_venta\<close> has no check for an empty request: called
  with no lines, and with no fault at flush or commit, it returns success with total 0
  and registers one sale with total 0, no line item and no change to any product. The
  empty order is refused one level up: when no line of the form survives the filter,
  \<^verbatim>\<open>nueva_venta\<close> flashes the warning, leaves the session as it was and does not call
  \<^verbatim>\<open>registrar_venta\<close>.
\<close>

theorem registrar_venta_lista_vacia:
  "(flush_falla env = None \<and> commit_falla env = None \<and> lineas dps = [] \<longrightarrow>
      status (fst (registrar_venta env s idc idu fo dps)) = ''success''
      \<and> total_venta (fst (registrar_venta env s idc idu fo dps)) = 0
      \<and> ventas (committed (snd (registrar_venta env s idc idu fo dps)))
          = ventas (working s) @
              [\<lparr>id_venta = venta_id (fst (registrar_venta env s idc idu fo dps)),
                fecha_venta = (case fo of None \<Rightarrow> hoy env | Some f \<Rightarrow> f),
                id_cliente = idc, id_usuario = idu, total_v = 0\<rparr>]
      \<and> detalles (committed (snd (registrar_venta env s idc idu fo dps))) = detalles (working s)
      \<and> productos (committed (snd (registrar_venta env s idc idu fo dps)))
          = productos (working s))
   \<and> (armar_detalles (arit env) (productos (working s)) ids cs [] = Inr [] \<longrightarrow>
        nueva_venta env s idu idc ids cs
          = (Inr \<lparr>flash = ''Debe agregar al menos un producto'', categoria = ''warning'',
                   destino = ''nueva_venta'', destino_id = None\<rparr>, s))"
proof (intro conjI impI)
  assume a: "flush_falla env = None \<and> commit_falla env = None \<and> lineas dps = []"
  obtain r s' where rs: "registrar_venta env s idc idu fo dps = (r, s')"
    by (cases "registrar_venta env s idc idu fo dps")
  have st: "status r = ''success''"
    using registrar_venta_vacia [of env dps s idc idu fo] a rs by simp
  from registrar_venta_success [OF rs st] obtain nuevos antes despues s1 where n:
    "r = \<lparr>status = ''success'', mensaje = ''Venta registrada exitosamente'',
            venta_id = nuevo_id (map id_venta (ventas (working s))),
            total_venta = total_pedido (arit env) (lineas dps)\<rparr>"
    "ventas (committed s') = ventas (working s) @
          [\<lparr>id_venta = nuevo_id (map id_venta (ventas (working s))),
            fecha_venta = (case fo of None \<Rightarrow> hoy env | Some f \<Rightarrow> f),
            id_cliente = idc, id_usuario = idu,
            total_v = columna (arit env) (total_pedido (arit env) (lineas dps))\<rparr>]"
    "detalles (committed s') = detalles (working s) @ nuevos"
    "map (\<lambda>dv. Some (dv_id_producto dv)) nuevos = map dp_id_producto (lineas dps)"
    by (elim exE conjE)
  have e: "nuevos = []" using n(4) a by simp
  have t0: "total_pedido (arit env) (lineas dps) = 0" using a by (simp add: total_pedido_def)
  have i: "intentar_venta env s idc idu fo [] = Inr (r, s')"
    using registrar_venta_Inr [OF rs st] a by simp
  have p: "productos (committed s') = productos (working s)"
  proof -
    from intentar_venta_Inr [OF i] obtain s3 s5 w tot where c:
      "flush env (s\<lparr>working := (working s)\<lparr>ventas := ventas (working s) @
                    [\<lparr>id_venta = nuevo_id (map id_venta (ventas (working s))),
                      fecha_venta = (case fo of None \<Rightarrow> hoy env | Some f \<Rightarrow> f),
                      id_cliente = idc, id_usuario = idu, total_v = 0\<rparr>]\<rparr>\<rparr>) = Inr s3"
      "w = working s3"
      "s5 = s3\<lparr>working := w\<lparr>ventas :=
                     map (\<lambda>v. if id_venta v = nuevo_id (map id_venta (ventas (working s)))
                                then v\<lparr>total_v := columna (arit env) tot\<rparr> else v)
                       (ventas w)\<rparr>\<rparr>"
      "commit env (s5\<lparr>working := add_auditoria (working s5) ''Venta'' ''INSERT''
                   (nuevo_id (map id_venta (ventas (working s)))) ''system''
                   (msg_venta_registrada idc tot)\<rparr>) = Inr s'"
      by auto
    have "productos (working s3) = productos (working s)"
      using flush_Inr(3) [OF c(1)] by (simp add: mas_listener_def)
    moreover have "productos (committed s') = productos (working s5)"
      using commit_Inr(3) [OF c(4)] by (simp add: mas_listener_def add_auditoria_def)
    ultimately show ?thesis using c(2,3) by simp
  qed
  show "status (fst (registrar_venta env s idc idu fo dps)) = ''success''"
    using rs st by simp
  show "total_venta (fst (registrar_venta env s idc idu fo dps)) = 0"
    using rs n(1) t0 by simp
  show "ventas (committed (snd (registrar_venta env s idc idu fo dps)))
          = ventas (working s) @
              [\<lparr>id_venta = venta_id (fst (registrar_venta env s idc idu fo dps)),
                fecha_venta = (case fo of None \<Rightarrow> hoy env | Some f \<Rightarrow> f),
                id_cliente = idc, id_usuario = idu, total_v = 0\<rparr>]"
    using rs n(1,2) t0 by (simp add: columna_cero)
  show "detalles (committed (snd (registrar_venta env s idc idu fo dps))) = detalles (working s)"
    using rs n(3) e by simp
  show "productos (committed (snd (registrar_venta env s idc idu fo dps)))
          = productos (working s)"
    using rs p by simp
next
  assume "armar_detalles (arit env) (productos (working s)) ids cs [] = Inr []"
  then show "nueva_venta env s idu idc ids cs
          = (Inr \<lparr>flash = ''Debe agregar al menos un producto'', categoria = ''warning'',
                   destino = ''nueva_venta'', destino_id = None\<rparr>, s)"
    by (simp add: nueva_venta_def)
qed

text \<open>
  The empty list given to the function, and a form whose two lines are filtered out (a
  quantity of zero, an unknown product).
\<close>

theorem registrar_venta_lista_vacia_witness:
  "(flush_falla sin_fallas = None \<and> commit_falla sin_fallas = None \<and> lineas (Some []) = [])
   \<and> status (fst (registrar_venta sin_fallas sesion0 7 3 None (Some []))) = ''success''
   \<and> total_venta (fst (registrar_venta sin_fallas sesion0 7 3 None (Some []))) = 0
   \<and> detalles (committed (snd (registrar_venta sin_fallas sesion0 7 3 None (Some []))))
       = detalles (working sesion0)
   \<and> productos (committed (snd (registrar_venta sin_fallas sesion0 7 3 None (Some []))))
       = productos (working sesion0)
   \<and> armar_detalles (arit sin_fallas) (productos (working sesion0)) [1, 9999] [0, 4] [] = Inr []
   \<and> nueva_venta sin_fallas sesion0 3 7 [1, 9999] [0, 4]
        = (Inr \<lparr>flash = ''Debe agregar al menos un producto'', categoria = ''warning'',
                 destino = ''nueva_venta'', destino_id = None\<rparr>, sesion0)"
proof -
  have h1: "flush_falla sin_fallas = None \<and> commit_falla sin_fallas = None
              \<and> lineas (Some []) = []"
    by (simp add: sin_fallas_def lineas_def)
  have h2: "armar_detalles (arit sin_fallas) (productos (working sesion0)) [1, 9999] [0, 4] [] = Inr []"
    by (simp add: corrida)
  from registrar_venta_lista_vacia [of sin_fallas "Some []" sesion0 7 3 None "[1, 9999]" "[0, 4]"]
    h1 h2
  show ?thesis by blast
qed

text \<open>
  C4 as stated fails: the call with the empty list returns success with the sale id 1, and
  the table of sales, empty before, has one row after.
\<close>

theorem registrar_venta_vacia_exito:
  "status (fst (registrar_venta sin_fallas sesion0 7 3 None (Some []))) = ''success''
   \<and> venta_id (fst (registrar_venta sin_fallas sesion0 7 3 None (Some []))) = 1
   \<and> length (ventas (committed sesion0)) = 0
   \<and> length (ventas (committed (snd (registrar_venta sin_fallas sesion0 7 3 None (Some [])))))
       = 1"
  by (simp add: corrida)

text \<open>
  C9. A line item stores its own unit price. Editing a product, its price included, in a
  session with nothing pending leaves the tables of sales and of line items as they are:
  for every sale the recorded unit prices, the subtotals and the total computed from them
  are the same after the edit, and so is the stored total of the sale. A later call of
  \<^verbatim>\<open>registrar_venta\<close> only appends rows to the two tables.
\<close>

theorem editar_producto_conserva_ventas:
  assumes "limpia s"
  shows "ventas (committed (snd (editar_producto env s i form))) = ventas (committed s)
     \<and> detalles (committed (snd (editar_producto env s i form))) = detalles (committed s)
     \<and> (\<forall>idv.
          map precio_unitario (detalles_de (committed (snd (editar_producto env s i form))) idv)
            = map precio_unitario (detalles_de (committed s) idv)
          \<and> map (subtotal ar) (detalles_de (committed (snd (editar_producto env s i form))) idv)
            = map (subtotal ar) (detalles_de (committed s) idv)
          \<and> calcular_total ar (committed (snd (editar_producto env s i form))) idv
            = calcular_total ar (committed s) idv)
     \<and> (\<exists>vs dvs.
          ventas (committed (snd (registrar_venta env s idc idu fo dps)))
            = ventas (committed s) @ vs
          \<and> detalles (committed (snd (registrar_venta env s idc idu fo dps)))
            = detalles (committed s) @ dvs)"
proof -
  have w: "working s = committed s" using assms by (simp add: limpia_def)
  have v: "ventas (committed (snd (editar_producto env s i form))) = ventas (committed s)"
    and d: "detalles (committed (snd (editar_producto env s i form))) = detalles (committed s)"
    using editar_producto_tablas [of env s i form] w by simp_all
  have "\<forall>idv.
          map precio_unitario (detalles_de (committed (snd (editar_producto env s i form))) idv)
            = map precio_unitario (detalles_de (committed s) idv)
          \<and> map (subtotal ar) (detalles_de (committed (snd (editar_producto env s i form))) idv)
            = map (subtotal ar) (detalles_de (committed s) idv)
          \<and> calcular_total ar (committed (snd (editar_producto env s i form))) idv
            = calcular_total ar (committed s) idv"
    using d by (simp add: detalles_de_def calcular_total_def)
  with v d registrar_venta_agrega [OF assms, of env idc idu fo dps] show ?thesis by blast
qed

text \<open>
  Two laptops are sold at 850; then the price of the laptop is set to 999. The line item
  still says 850 and the sale 1700.
\<close>

theorem editar_producto_conserva_ventas_witness:
  "limpia (snd (registrar_venta sin_fallas sesion0 7 3 None (Some [linea 1 2 850])))
   \<and> map precio (productos (committed (snd (editar_producto sin_fallas
         (snd (registrar_venta sin_fallas sesion0 7 3 None (Some [linea 1 2 850]))) 1
         \<lparr>f_nombre_producto = ''Laptop'', f_descripcion = ''Laptop 15'', f_precio = 999,
           f_stock = 23\<rparr>)))) = [999, 25 / 2]
   \<and> map precio_unitario (detalles_de (committed (snd (editar_producto sin_fallas
         (snd (registrar_venta sin_fallas sesion0 7 3 None (Some [linea 1 2 850]))) 1
         \<lparr>f_nombre_producto = ''Laptop'', f_descripcion = ''Laptop 15'', f_precio = 999,
           f_stock = 23\<rparr>))) 1) = [850]
   \<and> map total_v (ventas (committed (snd (editar_producto sin_fallas
         (snd (registrar_venta sin_fallas sesion0 7 3 None (Some [linea 1 2 850]))) 1
         \<lparr>f_nombre_producto = ''Laptop'', f_descripcion = ''Laptop 15'', f_precio = 999,
           f_stock = 23\<rparr>)))) = [1700]
   \<and> calcular_total aritmetica_exacta (committed (snd (editar_producto sin_fallas
         (snd (registrar_venta sin_fallas sesion0 7 3 None (Some [linea 1 2 850]))) 1
         \<lparr>f_nombre_producto = ''Laptop'', f_descripcion = ''Laptop 15'', f_precio = 999,
           f_stock = 23\<rparr>))) 1 = 1700"
proof -
  define s1 where "s1 = snd (registrar_venta sin_fallas sesion0 7 3 None (Some [linea 1 2 850]))"
  define fm where "fm = \<lparr>f_nombre_producto = ''Laptop'', f_descripcion = ''Laptop 15'',
     f_precio = 999, f_stock = 23\<rparr>"
  have h: "limpia s1" by (simp add: s1_def limpia_def corrida)
  note t = editar_producto_conserva_ventas [OF h, of sin_fallas 1 fm aritmetica_exacta 7 3 None None]
  have p: "map precio (productos (committed (snd (editar_producto sin_fallas s1 1 fm))))
      = [999, 25 / 2]"
    by (simp add: s1_def fm_def corrida editar_producto_def)
  have a: "map precio_unitario (detalles_de (committed s1) 1) = [850]"
    by (simp add: s1_def corrida detalles_de_def)
  have b: "map total_v (ventas (committed s1)) = [1700]"
    by (simp add: s1_def corrida)
  have c: "calcular_total aritmetica_exacta (committed s1) 1 = 1700"
    by (simp add: s1_def corrida detalles_de_def calcular_total_def)
  from t a b c have
    "map precio_unitario (detalles_de (committed (snd (editar_producto sin_fallas s1 1 fm))) 1)
       = [850]"
    "map total_v (ventas (committed (snd (editar_producto sin_fallas s1 1 fm)))) = [1700]"
    "calcular_total aritmetica_exacta (committed (snd (editar_producto sin_fallas s1 1 fm))) 1
       = 1700"
    by simp_all
  with h p show ?thesis unfolding s1_def fm_def by blast
qed

text \<open>
  C5 (as the code has it). Every successful call of \<^verbatim>\<open>registrar_venta\<close> adds exactly one
  sale, with the returned id and with the returned total as the column keeps it, and one
  line item for each line of the request, all of them of the new sale; that number is the
  number of distinct products with a positive quantity whenever no product is repeated
  and every quantity is positive. The audit log gains one entry \<^verbatim>\<open>INSERT\<close> on \<^verbatim>\<open>Venta\<close> for
  the new sale, whose text holds the customer id and the returned total with two
  decimals; every other entry it gains is one the product listener writes.
\<close>

theorem registrar_venta_una_venta:
  assumes "registrar_venta env s idc idu fo dps = (r, s')" and "status r = ''success''"
  shows "\<exists>nuevos antes despues.
      ventas (committed s') = ventas (working s) @
         [\<lparr>id_venta = venta_id r, fecha_venta = (case fo of None \<Rightarrow> hoy env | Some f \<Rightarrow> f),
           id_cliente = idc, id_usuario = idu,
           total_v = columna (arit env) (total_venta r)\<rparr>]
    \<and> detalles (committed s') = detalles (working s) @ nuevos
    \<and> length nuevos = length (lineas dps)
    \<and> (\<forall>dv\<in>set nuevos. dv_id_venta dv = venta_id r)
    \<and> (distinct (map dp_id_producto (lineas dps)) \<and> list_all cantidad_positiva (lineas dps)
         \<longrightarrow> length nuevos = productos_distintos (lineas dps))
    \<and> auditorias (committed s') = auditorias (working s) @ antes @
         [\<lparr>tabla = ''Venta'', accion = ''INSERT'', id_registro = venta_id r,
           usuario_sql = ''system'',
           datos = ''Venta registrada: Cliente ID '' @ str_int idc @ '', Total S/. ''
                     @ fmt_2f (total_venta r)\<rparr>] @ despues
    \<and> (\<forall>a\<in>set (antes @ despues). tabla a = ''Producto'' \<and> accion a = ''UPDATE'')"
proof -
  from registrar_venta_success [OF assms] obtain nuevos antes despues s1 where n:
    "r = \<lparr>status = ''success'', mensaje = ''Venta registrada exitosamente'',
            venta_id = nuevo_id (map id_venta (ventas (working s))),
            total_venta = total_pedido (arit env) (lineas dps)\<rparr>"
    "ventas (committed s') = ventas (working s) @
          [\<lparr>id_venta = nuevo_id (map id_venta (ventas (working s))),
            fecha_venta = (case fo of None \<Rightarrow> hoy env | Some f \<Rightarrow> f),
            id_cliente = idc, id_usuario = idu,
            total_v = columna (arit env) (total_pedido (arit env) (lineas dps))\<rparr>]"
    "detalles (committed s') = detalles (working s) @ nuevos"
    "map (\<lambda>dv. Some (dv_id_producto dv)) nuevos = map dp_id_producto (lineas dps)"
    "\<forall>dv\<in>set nuevos. dv_id_venta dv = nuevo_id (map id_venta (ventas (working s)))"
    "auditorias (committed s') = auditorias (working s) @ antes @
          [\<lparr>tabla = ''Venta'', accion = ''INSERT'',
            id_registro = nuevo_id (map id_venta (ventas (working s))),
            usuario_sql = ''system'',
            datos = msg_venta_registrada idc (total_pedido (arit env) (lineas dps))\<rparr>]
          @ despues"
    "list_all fila_listener antes" "list_all fila_listener despues"
    by (elim exE conjE)
  have v: "venta_id r = nuevo_id (map id_venta (ventas (working s)))"
    and t: "total_venta r = total_pedido (arit env) (lineas dps)"
    using n(1) by simp_all
  have len: "length nuevos = length (lineas dps)" using n(4) by (metis length_map)
  have c1: "ventas (committed s') = ventas (working s) @
         [\<lparr>id_venta = venta_id r, fecha_venta = (case fo of None \<Rightarrow> hoy env | Some f \<Rightarrow> f),
           id_cliente = idc, id_usuario = idu,
           total_v = columna (arit env) (total_venta r)\<rparr>]"
    using n(2) v t by simp
  have c4: "\<forall>dv\<in>set nuevos. dv_id_venta dv = venta_id r" using n(5) v by simp
  have c5: "distinct (map dp_id_producto (lineas dps)) \<and> list_all cantidad_positiva (lineas dps)
         \<longrightarrow> length nuevos = productos_distintos (lineas dps)"
    using len productos_distintos_lineas [of "lineas dps"] by simp
  have c6: "auditorias (committed s') = auditorias (working s) @ antes @
         [\<lparr>tabla = ''Venta'', accion = ''INSERT'', id_registro = venta_id r,
           usuario_sql = ''system'',
           datos = ''Venta registrada: Cliente ID '' @ str_int idc @ '', Total S/. ''
                     @ fmt_2f (total_venta r)\<rparr>] @ despues"
    using n(6) v t by (simp add: msg_venta_registrada_def)
  have c7: "\<forall>a\<in>set (antes @ despues). tabla a = ''Producto'' \<and> accion a = ''UPDATE''"
    using n(7,8) by (auto simp: list_all_iff fila_listener_def)
  show ?thesis
    by (intro exI [of _ nuevos] exI [of _ antes] exI [of _ despues] conjI)
      (fact c1 n(3) len c4 c5 c6 c7)+
qed

text \<open>An order of two different products.\<close>

theorem registrar_venta_una_venta_witness:
  "status (fst (registrar_venta sin_fallas sesion0 7 3 None (Some [linea 1 2 850, linea 2 1 5])))
     = ''success''
   \<and> distinct (map dp_id_producto (lineas (Some [linea 1 2 850, linea 2 1 5])))
   \<and> list_all cantidad_positiva (lineas (Some [linea 1 2 850, linea 2 1 5]))
   \<and> (\<exists>nuevos. detalles (committed (snd (registrar_venta sin_fallas sesion0 7 3 None
          (Some [linea 1 2 850, linea 2 1 5])))) = detalles (working sesion0) @ nuevos
        \<and> length nuevos = length (lineas (Some [linea 1 2 850, linea 2 1 5]))
        \<and> length nuevos = productos_distintos (lineas (Some [linea 1 2 850, linea 2 1 5])))"
proof -
  have h1: "registrar_venta sin_fallas sesion0 7 3 None (Some [linea 1 2 850, linea 2 1 5])
     = (fst (registrar_venta sin_fallas sesion0 7 3 None (Some [linea 1 2 850, linea 2 1 5])),
        snd (registrar_venta sin_fallas sesion0 7 3 None (Some [linea 1 2 850, linea 2 1 5])))"
    by simp
  have h2: "status (fst (registrar_venta sin_fallas sesion0 7 3 None
      (Some [linea 1 2 850, linea 2 1 5]))) = ''success''"
    by (simp add: corrida)
  have h3: "distinct (map dp_id_producto (lineas (Some [linea 1 2 850, linea 2 1 5])))
     \<and> list_all cantidad_positiva (lineas (Some [linea 1 2 850, linea 2 1 5]))"
    by (simp add: lineas_def linea_def cantidad_positiva_def)
  from registrar_venta_una_venta [OF h1 h2] h2 h3 show ?thesis by blast
qed

text \<open>
  C5 as stated fails: a request with two lines for the laptop is accepted and adds two
  line items, while it names one distinct product.
\<close>

theorem registrar_venta_lineas_repetidas:
  "status (fst (registrar_venta sin_fallas sesion0 7 3 None
       (Some [linea 1 1 850, linea 1 1 850]))) = ''success''
   \<and> length (detalles (committed sesion0)) = 0
   \<and> length (detalles (committed (snd (registrar_venta sin_fallas sesion0 7 3 None
        (Some [linea 1 1 850, linea 1 1 850]))))) = 2
   \<and> productos_distintos [linea 1 1 850, linea 1 1 850] = 1"
  by (simp add: corrida productos_distintos_def cantidad_positiva_def)

text \<open>
  C6, at a failing input. The request names the mouse, which exists and has one unit in
  stock, in two lines of one unit each: the quantity asked of the product, two, is more
  than its stock, and no line alone is. The stock check, which looks at one line at a
  time, lets the request pass, and the call returns success instead of the error for
  insufficient stock.
\<close>

theorem registrar_venta_pedido_excede_stock:
  "list_all (linea_existente (productos (working sesion0)))
      (lineas (Some [linea 2 1 (25 / 2), linea 2 1 (25 / 2)]))
   \<and> map_option stock (query_get (productos (working sesion0)) 2) = Some 1
   \<and> cantidad_pedida (lineas (Some [linea 2 1 (25 / 2), linea 2 1 (25 / 2)])) 2 = 2
   \<and> \<not> list_ex (falta_stock (productos (working sesion0)))
        (lineas (Some [linea 2 1 (25 / 2), linea 2 1 (25 / 2)]))
   \<and> fst (registrar_venta sin_fallas sesion0 7 3 None
        (Some [linea 2 1 (25 / 2), linea 2 1 (25 / 2)]))
       = \<lparr>status = ''success'', mensaje = ''Venta registrada exitosamente'', venta_id = 1,
          total_venta = 25\<rparr>"
  by (simp add: corrida linea_existente_def falta_stock_def cantidad_pedida_def)

end
